theory Spec2Isabelle
  imports Complex_Main "HOL-Library.AList"
begin

section \<open>Python values used by the drivers\<close>

text \<open>
  The three drivers (lock-in 7280DSP, Keithley 2700 multimeter, Rohde and Schwarz RTx
  oscilloscope) are Python classes. A Python \<open>str\<close> is modelled as a \<open>string\<close> whose
  characters stand for code points below 256: the only non-ASCII characters of the sources
  are the micro sign (code point 181) and the degree sign (176), each one character of the
  Python string and one \<open>char\<close> here. An exception is a value \<open>Inl e\<close> of a sum type.
\<close>

datatype py_error =
    ValueError | KeyError | IndexError | OverflowError | Timeout

type_synonym 'a result = "py_error + 'a"

definition bind_result :: "'a result \<Rightarrow> ('a \<Rightarrow> 'b result) \<Rightarrow> 'b result" where
  "bind_result r f = (case r of Inl e \<Rightarrow> Inl e | Inr x \<Rightarrow> f x)"

text \<open>A list comprehension whose element expression may raise: the first error wins.\<close>

fun map_result :: "('a \<Rightarrow> 'b result) \<Rightarrow> 'a list \<Rightarrow> 'b list result" where
  "map_result f [] = Inr []"
| "map_result f (x # xs) =
     (case f x of Inl e \<Rightarrow> Inl e
      | Inr y \<Rightarrow> (case map_result f xs of Inl e \<Rightarrow> Inl e | Inr ys \<Rightarrow> Inr (y # ys)))"

subsection \<open>String methods\<close>

text \<open>\<open>str.isspace\<close> on one character, for code points below 256.\<close>

definition py_isspace :: "char \<Rightarrow> bool" where
  "py_isspace c = ((of_char c :: nat) \<in> {9, 10, 11, 12, 13, 28, 29, 30, 31, 32, 133, 160})"

definition is_digit :: "char \<Rightarrow> bool" where
  "is_digit c = (48 \<le> (of_char c :: nat) \<and> (of_char c :: nat) \<le> 57)"

definition digit_val :: "char \<Rightarrow> nat" where
  "digit_val c = of_char c - 48"

definition digit_char :: "nat \<Rightarrow> char" where
  "digit_char d = char_of (48 + d)"

text \<open>
  The whitespace that \<open>int(s)\<close> and \<open>float(s)\<close> skip around a literal: the ASCII
  whitespace and, of the code points from 128 to 255, the two that \<open>str.isspace\<close> accepts
  (they are turned into spaces first). The separators with the codes 28 to 31, which
  \<open>str.isspace\<close> accepts too, are not skipped: both conversions raise ValueError on them.
\<close>

definition is_numeric_space :: "char \<Rightarrow> bool" where
  "is_numeric_space c = ((of_char c :: nat) \<in> {9, 10, 11, 12, 13, 32, 133, 160})"

text \<open>Stripping at both ends, as \<open>s.strip(chars)\<close> and the numeric conversions do.\<close>

definition strip_where :: "(char \<Rightarrow> bool) \<Rightarrow> string \<Rightarrow> string" where
  "strip_where P s = rev (dropWhile P (rev (dropWhile P s)))"

definition strip_numeric :: "string \<Rightarrow> string" where
  "strip_numeric s = strip_where is_numeric_space s"

definition strip_chars :: "string \<Rightarrow> string \<Rightarrow> string" where
  "strip_chars chars s = strip_where (\<lambda>c. c \<in> set chars) s"

text \<open>\<open>s.startswith(p)\<close> and \<open>p in s\<close>.\<close>

definition startswith :: "string \<Rightarrow> string \<Rightarrow> bool" where
  "startswith s p = (take (length p) s = p)"

fun contains :: "string \<Rightarrow> string \<Rightarrow> bool" where
  "contains [] p = (p = [])"
| "contains (c # cs) p = (startswith (c # cs) p \<or> contains cs p)"

text \<open>
  \<open>s.replace(old, new)\<close>: every non-overlapping occurrence of \<open>old\<close>, from the left. With
  an empty \<open>old\<close> Python puts \<open>new\<close> before every character and at the end.
\<close>

function replace :: "string \<Rightarrow> string \<Rightarrow> string \<Rightarrow> string" where
  "replace old new s =
     (if old = [] then new @ concat (map (\<lambda>c. c # new) s)
      else if s = [] then []
      else if startswith s old then new @ replace old new (drop (length old) s)
      else hd s # replace old new (tl s))"
  by pat_completeness auto
termination
  by (relation "measure (\<lambda>(old, new, s). length s)") auto

declare replace.simps [simp del]

text \<open>
  \<open>s.split(sep)\<close> with a separator: the pieces between the occurrences of \<open>sep\<close>, empty
  pieces kept. All separators of the sources are non-empty literals (Python raises
  ValueError on an empty one).
\<close>

function split_sep :: "string \<Rightarrow> string \<Rightarrow> string list" where
  "split_sep sep s =
     (if s = [] then [[]]
      else if sep \<noteq> [] \<and> startswith s sep then [] # split_sep sep (drop (length sep) s)
      else (case split_sep sep (tl s) of
              [] \<Rightarrow> [[hd s]]
            | y # ys \<Rightarrow> (hd s # y) # ys))"
  by pat_completeness auto
termination
  by (relation "measure (\<lambda>(sep, s). length s)") auto

declare split_sep.simps [simp del]

text \<open>\<open>s.split()\<close> without a separator: the maximal runs of non-whitespace.\<close>

fun split_ws_acc :: "string \<Rightarrow> string \<Rightarrow> string list" where
  "split_ws_acc cur [] = (if cur = [] then [] else [rev cur])"
| "split_ws_acc cur (c # cs) =
     (if py_isspace c
      then (if cur = [] then split_ws_acc [] cs else rev cur # split_ws_acc [] cs)
      else split_ws_acc (c # cur) cs)"

definition split_ws :: "string \<Rightarrow> string list" where
  "split_ws s = split_ws_acc [] s"

text \<open>\<open>xs[-1]\<close> raises IndexError on an empty sequence.\<close>

definition last_item :: "'a list \<Rightarrow> 'a result" where
  "last_item xs = (if xs = [] then Inl IndexError else Inr (last xs))"

text \<open>\<open>xs[1]\<close>.\<close>

definition item1 :: "'a list \<Rightarrow> 'a result" where
  "item1 xs = (case xs of _ # y # _ \<Rightarrow> Inr y | _ \<Rightarrow> Inl IndexError)"

subsection \<open>Integers: \<open>str(n)\<close> and \<open>int(s)\<close>\<close>

fun str_nat :: "nat \<Rightarrow> string" where
  "str_nat n = (if n < 10 then [digit_char n] else str_nat (n div 10) @ [digit_char (n mod 10)])"

declare str_nat.simps [simp del]

definition str_int :: "int \<Rightarrow> string" where
  "str_int i = (if i < 0 then CHR ''-'' # str_nat (nat (- i)) else str_nat (nat i))"

text \<open>
  A digit part of a Python numeric literal: digits, with single underscores allowed between
  two digits. \<open>digitpart\<close> returns the digits without the underscores.
\<close>

fun digitpart_rest :: "string \<Rightarrow> string option" where
  "digitpart_rest [] = Some []"
| "digitpart_rest (c # cs) =
     (if is_digit c then map_option ((#) c) (digitpart_rest cs)
      else if c = CHR ''_'' then
        (case cs of
           [] \<Rightarrow> None
         | d # ds \<Rightarrow> if is_digit d then map_option ((#) d) (digitpart_rest ds) else None)
      else None)"

definition digitpart :: "string \<Rightarrow> string option" where
  "digitpart s =
     (case s of
        [] \<Rightarrow> None
      | c # cs \<Rightarrow> if is_digit c then map_option ((#) c) (digitpart_rest cs) else None)"

definition nat_of_digits :: "string \<Rightarrow> nat" where
  "nat_of_digits ds = foldl (\<lambda>acc c. 10 * acc + digit_val c) 0 ds"

text \<open>An optional sign in front of a literal: the sign and the rest.\<close>

definition split_sign :: "string \<Rightarrow> bool \<times> string" where
  "split_sign s =
     (case s of
        [] \<Rightarrow> (False, [])
      | c # cs \<Rightarrow> if c = CHR ''-'' then (True, cs)
                 else if c = CHR ''+'' then (False, cs) else (False, c # cs))"

text \<open>
  \<open>int(s)\<close> in base 10: surrounding whitespace, an optional sign, a digit part. The limit
  that recent Python versions put on the number of digits is not modelled.
\<close>

definition py_int :: "string \<Rightarrow> int result" where
  "py_int s =
     (let (neg, body) = split_sign (strip_numeric s) in
      case digitpart body of
        None \<Rightarrow> Inl ValueError
      | Some ds \<Rightarrow> Inr (if neg then - int (nat_of_digits ds) else int (nat_of_digits ds)))"

subsection \<open>Floats: \<open>float(s)\<close> and the arithmetic the drivers use\<close>

text \<open>
  A Python float is modelled by the exact rational it denotes, extended with the two
  infinities and not-a-number. Rounding to binary64, overflow of an arithmetic result to
  infinity and the sign of zero are not modelled: the properties below are about which
  branch runs and which exact quantity is computed, not about the last bit of the result.
\<close>

datatype fval = NaN | PInf | NInf | Fin rat

definition fneg :: "fval \<Rightarrow> fval" where
  "fneg x = (case x of NaN \<Rightarrow> NaN | PInf \<Rightarrow> NInf | NInf \<Rightarrow> PInf | Fin a \<Rightarrow> Fin (- a))"

fun fadd :: "fval \<Rightarrow> fval \<Rightarrow> fval" where
  "fadd NaN _ = NaN"
| "fadd _ NaN = NaN"
| "fadd PInf NInf = NaN"
| "fadd NInf PInf = NaN"
| "fadd PInf _ = PInf"
| "fadd _ PInf = PInf"
| "fadd NInf _ = NInf"
| "fadd _ NInf = NInf"
| "fadd (Fin a) (Fin b) = Fin (a + b)"

definition fsub :: "fval \<Rightarrow> fval \<Rightarrow> fval" where
  "fsub x y = fadd x (fneg y)"

definition fsign :: "fval \<Rightarrow> int" where
  "fsign x = (case x of NaN \<Rightarrow> 0 | PInf \<Rightarrow> 1 | NInf \<Rightarrow> - 1
              | Fin a \<Rightarrow> if a > 0 then 1 else if a < 0 then - 1 else 0)"

definition fmul :: "fval \<Rightarrow> fval \<Rightarrow> fval" where
  "fmul x y =
     (case (x, y) of
        (Fin a, Fin b) \<Rightarrow> Fin (a * b)
      | _ \<Rightarrow> if x = NaN \<or> y = NaN \<or> fsign x * fsign y = 0 then NaN
             else if fsign x * fsign y > 0 then PInf else NInf)"

text \<open>\<open>x > 0.0\<close>: false for not-a-number.\<close>

definition fpositive :: "fval \<Rightarrow> bool" where
  "fpositive x = (fsign x > 0)"

text \<open>\<open>numpy.mean\<close> of a one-dimensional array: the sum divided by the count.\<close>

definition fdiv_count :: "fval \<Rightarrow> nat \<Rightarrow> fval" where
  "fdiv_count x n =
     (case x of
        Fin a \<Rightarrow> if n = 0 then NaN else Fin (a / of_nat n)
      | _ \<Rightarrow> x)"

definition np_mean :: "fval list \<Rightarrow> fval" where
  "np_mean xs = fdiv_count (foldl fadd (Fin 0) xs) (length xs)"

definition ascii_lower :: "char \<Rightarrow> char" where
  "ascii_lower c =
     (if 65 \<le> (of_char c :: nat) \<and> (of_char c :: nat) \<le> 90 then char_of ((of_char c :: nat) + 32)
      else c)"

text \<open>
  The grammar of \<open>float(s)\<close>:
  \<^verbatim>\<open>number ::= [digitpart] "." digitpart | digitpart ["."]\<close>
  \<open>parse_number\<close> returns the digits read as one natural number and the count of digits
  after the point.
\<close>

definition parse_number :: "string \<Rightarrow> (nat \<times> nat) option" where
  "parse_number s =
     (let ip = takeWhile (\<lambda>c. c \<noteq> CHR ''.'') s;
          rest = dropWhile (\<lambda>c. c \<noteq> CHR ''.'') s
      in case rest of
           [] \<Rightarrow> map_option (\<lambda>ds. (nat_of_digits ds, 0)) (digitpart ip)
         | _ # fp \<Rightarrow>
             if ip = [] then map_option (\<lambda>fs. (nat_of_digits fs, length fs)) (digitpart fp)
             else (case digitpart ip of
                     None \<Rightarrow> None
                   | Some ds \<Rightarrow>
                       if fp = [] then Some (nat_of_digits ds, 0)
                       else map_option (\<lambda>fs. (nat_of_digits (ds @ fs), length fs))
                              (digitpart fp)))"

text \<open>\<^verbatim>\<open>exponent ::= ("e" | "E") [sign] digitpart\<close>, after the letter.\<close>

definition parse_exponent :: "string \<Rightarrow> int option" where
  "parse_exponent s =
     (let (neg, body) = split_sign s
      in map_option (\<lambda>ds. if neg then - int (nat_of_digits ds) else int (nat_of_digits ds))
           (digitpart body))"

definition scale10 :: "rat \<Rightarrow> int \<Rightarrow> rat" where
  "scale10 q x = (if x \<ge> 0 then q * 10 ^ nat x else q / 10 ^ nat (- x))"

definition is_exp_letter :: "char \<Rightarrow> bool" where
  "is_exp_letter c = (c = CHR ''e'' \<or> c = CHR ''E'')"

definition parse_floatnumber :: "string \<Rightarrow> rat option" where
  "parse_floatnumber s =
     (let m = takeWhile (\<lambda>c. \<not> is_exp_letter c) s;
          r = dropWhile (\<lambda>c. \<not> is_exp_letter c) s
      in case parse_number m of
           None \<Rightarrow> None
         | Some (d, k) \<Rightarrow>
             (case r of
                [] \<Rightarrow> Some (of_nat d / 10 ^ k)
              | _ # ex \<Rightarrow> map_option (scale10 (of_nat d / 10 ^ k)) (parse_exponent ex)))"

text \<open>
  \<open>float(s)\<close>: surrounding whitespace, an optional sign, then \<open>nan\<close>, \<open>inf\<close>,
  \<open>infinity\<close> in any case, or a decimal number with an optional exponent. Anything else
  raises ValueError. A literal whose magnitude rounds beyond the largest binary64 number,
  that is from \<open>2^1024 - 2^970\<close> on, is read as an infinity.
\<close>

definition float_overflows :: "rat \<Rightarrow> bool" where
  "float_overflows q = (\<bar>q\<bar> \<ge> 2 ^ 1024 - 2 ^ 970)"

definition py_float :: "string \<Rightarrow> fval result" where
  "py_float s =
     (let (neg, body) = split_sign (strip_numeric s);
          lb = map ascii_lower body
      in if lb = ''nan'' then Inr NaN
         else if lb = ''inf'' \<or> lb = ''infinity'' then Inr (if neg then NInf else PInf)
         else (case parse_floatnumber body of
                 None \<Rightarrow> Inl ValueError
               | Some q \<Rightarrow>
                   Inr (if float_overflows q then (if neg then NInf else PInf)
                        else Fin (if neg then - q else q))))"

subsection \<open>The instrument port, the stop signal and the clock\<close>

text \<open>
  The host gives every driver a port (\<open>self.port.write\<close>, \<open>self.port.read\<close>), the stop
  signal \<open>self.is_run_stopped()\<close> and \<open>time.sleep\<close>. They are modelled by a world that is
  passed along: the answers the instrument will give, in order (a read with no answer left
  times out), the stop signal as a function of the number of sleeps so far, and the log of
  everything the driver did.
\<close>

datatype event = Wrote string | Got string | StopCheck bool | Slept rat

record world =
  pending :: "string list"
  stop_at :: "nat \<Rightarrow> bool"
  ticks :: nat
  log :: "event list"

definition port_write :: "world \<Rightarrow> string \<Rightarrow> world" where
  "port_write w cmd = w\<lparr>log := log w @ [Wrote cmd]\<rparr>"

definition port_read :: "world \<Rightarrow> (string \<times> world) result" where
  "port_read w =
     (case pending w of
        [] \<Rightarrow> Inl Timeout
      | r # rs \<Rightarrow> Inr (r, w\<lparr>pending := rs, log := log w @ [Got r]\<rparr>))"

definition is_run_stopped :: "world \<Rightarrow> bool \<times> world" where
  "is_run_stopped w = (stop_at w (ticks w), w\<lparr>log := log w @ [StopCheck (stop_at w (ticks w))]\<rparr>)"

definition sleep :: "world \<Rightarrow> rat \<Rightarrow> world" where
  "sleep w d = w\<lparr>ticks := Suc (ticks w), log := log w @ [Slept d]\<rparr>"

text \<open>A dictionary lookup \<open>d[k]\<close> raises KeyError on a missing key.\<close>

definition lookup :: "('k \<times> 'v) list \<Rightarrow> 'k \<Rightarrow> 'v result" where
  "lookup d k = (case map_of d k of None \<Rightarrow> Inl KeyError | Some v \<Rightarrow> Inr v)"

section \<open>Lock-in amplifier (LockIn-SignalRecovery\_7280DSP)\<close>

subsection \<open>Option tables\<close>

definition gains :: "(string \<times> string) list" where
  "gains =
    [(''Auto gain'', ''AUTOMATIC 1''),
     (''0 dB'', ''AUTOMATIC 0; ACGAIN 0''),
     (''10 dB'', ''AUTOMATIC 0; ACGAIN 1''),
     (''20 dB'', ''AUTOMATIC 0; ACGAIN 2''),
     (''30 dB'', ''AUTOMATIC 0; ACGAIN 3''),
     (''40 dB'', ''AUTOMATIC 0; ACGAIN 4''),
     (''50 dB'', ''AUTOMATIC 0; ACGAIN 5''),
     (''60 dB'', ''AUTOMATIC 0; ACGAIN 6''),
     (''70 dB'', ''AUTOMATIC 0; ACGAIN 7''),
     (''80 dB'', ''AUTOMATIC 0; ACGAIN 8''),
     (''90 dB'', ''AUTOMATIC 0; ACGAIN 9'')]"

text \<open>
  The dictionary comprehension of \<open>__init__\<close>:
  \<^verbatim>\<open>{int(v.split()[-1]): int(k[:-3]) for k, v in self.gains.items()
     if v.startswith("AUTOMATIC 0; ACGAIN")}\<close>
  A dictionary keeps insertion order and a repeated key overwrites in place, which is
  \<open>AList.update\<close>.
\<close>

fun inv_gains_of :: "(string \<times> string) list \<Rightarrow> (int \<times> int) list \<Rightarrow> (int \<times> int) list result" where
  "inv_gains_of [] acc = Inr acc"
| "inv_gains_of ((k, v) # kvs) acc =
     (if startswith v ''AUTOMATIC 0; ACGAIN'' then
        bind_result (last_item (split_ws v)) (\<lambda>w.
        bind_result (py_int w) (\<lambda>code.
        bind_result (py_int (take (length k - 3) k)) (\<lambda>db.
        inv_gains_of kvs (AList.update code db acc))))
      else inv_gains_of kvs acc)"

definition inv_gains :: "(int \<times> int) list result" where
  "inv_gains = inv_gains_of gains []"

definition micro :: char where
  "micro = CHR 0xB5"

definition timeconstants :: "(string \<times> string) list" where
  "timeconstants =
    [(''10'' @ [micro], ''TC 0''), (''20'' @ [micro], ''TC 1''), (''40'' @ [micro], ''TC 2''),
     (''80'' @ [micro], ''TC 3''), (''160'' @ [micro], ''TC 4''), (''320'' @ [micro], ''TC 5''),
     (''640'' @ [micro], ''TC 6''),
     (''5m'', ''TC 7''), (''10m'', ''TC 8''), (''20m'', ''TC 9''), (''50m'', ''TC 10''),
     (''100m'', ''TC 11''), (''200m'', ''TC 12''), (''500m'', ''TC 13''),
     (''1'', ''TC 14''), (''2'', ''TC 15''), (''5'', ''TC 16''), (''10'', ''TC 17''),
     (''20'', ''TC 18''), (''50'', ''TC 19''), (''100'', ''TC 20''), (''200'', ''TC 21''),
     (''500'', ''TC 22''),
     (''1k'', ''TC 23''), (''2k'', ''TC 24''), (''5k'', ''TC 25''), (''10k'', ''TC 26''),
     (''20k'', ''TC 27''), (''50k'', ''TC 28''), (''100k'', ''TC 29'')]"

subsection \<open>Unit conversion\<close>

text \<open>
  \<open>unit_to_float\<close>: the ordered table \<open>chars\<close> and the loop
  \<^verbatim>\<open>for char in chars: unit = unit.replace(char, chars[char])\<close>
  followed by \<open>float(unit)\<close>.
\<close>

definition chars :: "(string \<times> string) list" where
  "chars =
    [(''V'', []), (''s'', []), ('' '', []),
     (''n'', ''e-9''), ([micro], ''e-6''), (''m'', ''e-3'')]"

definition replace_units :: "string \<Rightarrow> string" where
  "replace_units unit = foldl (\<lambda>u (char, rep). replace char rep u) unit chars"

definition unit_to_float :: "string \<Rightarrow> fval result" where
  "unit_to_float unit = py_float (replace_units unit)"

subsection \<open>Driver state and lifecycle methods\<close>

text \<open>A value of the result list: the lock-in returns floats and one integer (the gain).\<close>

datatype reading = RFloat fval | RInt int

record lockin_parameter =
  p_SweepMode :: string
  p_Source :: string
  p_Input :: string
  p_Coupling :: string
  p_Slope :: string
  p_Ground :: string
  p_Sensitivity :: string
  p_Filter1 :: string
  p_Filter2 :: string
  p_Gain :: string
  p_TimeConstant :: string
  p_WaitTimeConstants :: string

record lockin =
  l_sweepmode :: string
  l_source :: string
  l_input :: string
  l_coupling :: string
  l_slope :: string
  l_ground :: string
  l_sensitivity :: string
  l_filter1 :: string
  l_filter2 :: string
  l_gain :: string
  l_timeconstant :: string
  l_waittimeconstants :: fval
  l_variables :: "string list"
  l_units :: "string list"
  l_plottype :: "bool list"
  l_savetype :: "bool list"
  l_frq :: fval
  l_r :: fval
  l_phi :: fval
  l_sen :: fval
  l_nhz :: fval
  l_acg :: int
  l_acg_dB :: int
  l_time_ref :: rat

text \<open>
  \<open>get_GUIparameter\<close> of the lock-in. The wait multiplier goes through \<open>float\<close>, which
  may raise; the units are assigned only when the input label starts with \<open>Voltage\<close> or
  \<open>Current\<close>.
\<close>

definition lockin_get_GUIparameter :: "lockin_parameter \<Rightarrow> lockin \<Rightarrow> lockin result" where
  "lockin_get_GUIparameter parameter s =
     bind_result (py_float (p_WaitTimeConstants parameter)) (\<lambda>wtc.
       let s1 = s\<lparr>l_sweepmode := p_SweepMode parameter,
                   l_source := p_Source parameter,
                   l_input := p_Input parameter,
                   l_coupling := p_Coupling parameter,
                   l_slope := p_Slope parameter,
                   l_ground := p_Ground parameter,
                   l_sensitivity := p_Sensitivity parameter,
                   l_filter1 := p_Filter1 parameter,
                   l_filter2 := p_Filter2 parameter,
                   l_gain := p_Gain parameter,
                   l_timeconstant := p_TimeConstant parameter,
                   l_waittimeconstants := wtc,
                   l_variables := [''Magnitude'', ''Phase'', ''Frequency'', ''Sensitivity'',
                                   ''AC Gain'', ''Noise density'']\<rparr>;
           s2 = (if startswith (l_input s1) ''Voltage''
                 then s1\<lparr>l_units := [''V'', ''deg'', ''Hz'', ''V'', ''dB'', ''V/sqrt(Hz)'']\<rparr>
                 else if startswith (l_input s1) ''Current''
                 then s1\<lparr>l_units := [''A'', ''deg'', ''Hz'', ''V'', ''dB'', ''A/sqrt(Hz)'']\<rparr>
                 else s1)
       in Inr (s2\<lparr>l_plottype := [True, True, True, True, True, True],
                   l_savetype := [True, True, True, True, True, True]\<rparr>))"


text \<open>
  \<open>time.sleep(d)\<close> with a float. The duration is turned into a signed 64-bit count of
  nanoseconds, rounded up: not-a-number raises ValueError, a duration that does not fit (an
  infinity, or more than \<open>sleep_limit\<close> seconds, about 292 years) raises OverflowError, and
  a negative one raises ValueError. An operating system that sleeps until an absolute
  deadline can refuse a duration within its clock reading of the limit as well; that
  margin is not modelled.
\<close>

definition sleep_limit :: rat where
  "sleep_limit = (2 ^ 63 - 1) / 10 ^ 9"

definition sleep_float :: "world \<Rightarrow> fval \<Rightarrow> world result" where
  "sleep_float w d =
     (case d of
        NaN \<Rightarrow> Inl ValueError
      | PInf \<Rightarrow> Inl OverflowError
      | NInf \<Rightarrow> Inl OverflowError
      | Fin q \<Rightarrow>
          if q > sleep_limit \<or> q < - sleep_limit then Inl OverflowError
          else if q < 0 then Inl ValueError
          else Inr (sleep w q))"

text \<open>
  \<open>trigger_ready\<close>:
  \<^verbatim>\<open>delta_time = (self.waittimeconstants * self.unit_to_float(self.timeconstant))
               - (time.time() - self.time_ref)
  if delta_time > 0.0: time.sleep(delta_time)\<close>
\<close>

definition trigger_ready :: "rat \<Rightarrow> lockin \<Rightarrow> world \<Rightarrow> world result" where
  "trigger_ready now s w =
     bind_result (unit_to_float (l_timeconstant s)) (\<lambda>tc.
       let delta_time = fsub (fmul (l_waittimeconstants s) tc) (Fin (now - l_time_ref s))
       in if fpositive delta_time then sleep_float w delta_time else Inr w)"

definition lockin_call :: "lockin \<Rightarrow> reading list" where
  "lockin_call s =
     [RFloat (l_r s), RFloat (l_phi s), RFloat (l_frq s), RFloat (l_sen s),
      RInt (l_acg_dB s), RFloat (l_nhz s)]"

section \<open>Multimeter (Logger-Keithley\_2700)\<close>

definition mode_variables :: "(string \<times> string) list" where
  "mode_variables =
    [(''Voltage DC'', ''DC Voltage''), (''Voltage AC'', ''AC Voltage''),
     (''Current DC'', ''DC Current''), (''Current AC'', ''AC Current''),
     (''Resistance'', ''Resistance''), (''FResistance'', ''FResistance''),
     (''Frequency'', ''Frequency''), (''Period'', ''Period''),
     (''Temperature'', ''K''), (''Continuity'', [])]"

definition mode_units :: "(string \<times> string) list" where
  "mode_units =
    [(''Voltage DC'', ''V''), (''Voltage AC'', ''V''),
     (''Current DC'', ''A''), (''Current AC'', ''A''),
     (''Resistance'', ''Ohm''), (''FResistance'', ''Ohm''),
     (''Frequency'', ''Hz''), (''Period'', ''s''),
     (''Temperature'', ''K''), (''Continuity'', [])]"

record k2700_parameter =
  p_Mode :: string
  p_Digits :: string
  p_Channel_list :: string
  p_Trigger :: string
  p_Scanning :: bool
  p_Range :: string
  p_Integration_speed :: string
  p_Temperature_unit :: string
  p_Port :: string

record k2700 =
  k_mode :: string
  k_digits :: string
  k_channel_string :: string
  k_channel_list :: "string list"
  k_channel_names :: "string list"
  k_trigger_type :: string
  k_scanning :: bool
  k_range :: string
  k_integration_speed :: string
  k_temperature_unit :: string
  k_port_string :: string
  k_variables :: "string list"
  k_units :: "string list"
  k_plottype :: "bool list"
  k_savetype :: "bool list"

subsection \<open>Channel list expansion\<close>

text \<open>
  One group of the channel string, the body of the loop in \<open>get_GUIparameter\<close>:
  \<^verbatim>\<open>if ":" in x:
      first,last=x.split(":")
      channels_to_add = list(range(int(first),int(last)+1))
      self.channel_list+=[str(x) for x in channels_to_add]
  else:
      self.channel_list+=[x]\<close>
  Unpacking into two names raises ValueError unless the split has exactly two pieces.
\<close>

definition expand_group :: "string \<Rightarrow> string list result" where
  "expand_group x =
     (if contains x '':'' then
        (case split_sep '':'' x of
           [first_s, last_s] \<Rightarrow>
             bind_result (py_int first_s) (\<lambda>f.
             bind_result (py_int last_s) (\<lambda>l.
               Inr (map str_int [f..l])))
         | _ \<Rightarrow> Inl ValueError)
      else Inr [x])"

fun expand_groups :: "string list \<Rightarrow> string list \<Rightarrow> string list result" where
  "expand_groups [] channel_list = Inr channel_list"
| "expand_groups (x # xs) channel_list =
     bind_result (expand_group x) (\<lambda>new. expand_groups xs (channel_list @ new))"

definition intermediate_list :: "string \<Rightarrow> string list" where
  "intermediate_list channel_string = split_sep '';'' (replace '','' '';'' channel_string)"

definition channel_list_of :: "string \<Rightarrow> string list result" where
  "channel_list_of channel_string = expand_groups (intermediate_list channel_string) []"

subsection \<open>Parameter binding\<close>

definition k2700_get_GUIparameter :: "k2700_parameter \<Rightarrow> k2700 \<Rightarrow> k2700 result" where
  "k2700_get_GUIparameter parameter s =
     bind_result (channel_list_of (p_Channel_list parameter)) (\<lambda>cl.
       let s1 = s\<lparr>k_mode := p_Mode parameter,
                   k_digits := p_Digits parameter,
                   k_channel_string := p_Channel_list parameter,
                   k_channel_list := cl,
                   k_channel_names := map (\<lambda>x. ''Dev'' @ drop 1 x) cl,
                   k_trigger_type := p_Trigger parameter,
                   k_scanning := p_Scanning parameter,
                   k_range := p_Range parameter,
                   k_integration_speed := p_Integration_speed parameter,
                   k_temperature_unit := p_Temperature_unit parameter,
                   k_port_string := p_Port parameter\<rparr>;
           s2 = (if k_scanning s1
                 then s1\<lparr>k_variables :=
                        map (\<lambda>i. k_mode s1 @ '' '' @ k_channel_names s1 ! i)
                          [0 ..< length (k_channel_list s1)]\<rparr>
                 else s1\<lparr>k_variables := [k_mode s1]\<rparr>)
       in if k_scanning s2 then
            bind_result
              (if contains (k_mode s2) ''Temperature'' then Inr (k_temperature_unit s2)
               else lookup mode_units (k_mode s2)) (\<lambda>u.
              Inr (s2\<lparr>k_units := replicate (length (k_channel_list s2)) u,
                       k_plottype := replicate (length (k_channel_list s2)) True,
                       k_savetype := replicate (length (k_channel_list s2)) True\<rparr>))
          else
            bind_result (lookup mode_variables (k_mode s2)) (\<lambda>v.
            bind_result (lookup mode_units (k_mode s2)) (\<lambda>u.
              Inr (s2\<lparr>k_variables := [v], k_units := [u],
                       k_plottype := [True], k_savetype := [True]\<rparr>))))"

subsection \<open>Acquisition and decoding\<close>

lemma bind_result_cong [fundef_cong]:
  "r = r' \<Longrightarrow> (\<And>x. r' = Inr x \<Longrightarrow> f x = f' x) \<Longrightarrow> bind_result r f = bind_result r' f'"
  by (auto simp: bind_result_def split: sum.splits)

text \<open>
  \<open>read_result\<close> of the multimeter:
  \<^verbatim>\<open>while True:
      if self.is_run_stopped(): break
      self.port.write("TRAC:FREE?")
      bytes_in_buffer = self.port.read().split(",")
      bytes_in_use = bytes_in_buffer[1]
      if int(bytes_in_use) >= len(self.channel_list)*16: break
      time.sleep(0.1)\<close>
  Every round takes one answer from the instrument, so the loop ends when the answers do
  (with the timeout of the port).
\<close>

function k2700_read_result :: "k2700 \<Rightarrow> world \<Rightarrow> world result" where
  "k2700_read_result s w =
     (if fst (is_run_stopped w) then Inr (snd (is_run_stopped w))
      else
        bind_result (port_read (port_write (snd (is_run_stopped w)) ''TRAC:FREE?'')) (\<lambda>(answer, w3).
        bind_result (item1 (split_sep '','' answer)) (\<lambda>bytes_in_use.
        bind_result (py_int bytes_in_use) (\<lambda>n.
          if n \<ge> int (length (k_channel_list s)) * 16 then Inr w3
          else k2700_read_result s (sleep w3 (1 / 10))))))"
  by pat_completeness auto
termination
  by (relation "measure (\<lambda>(s, w). length (pending w))")
     (auto simp: port_read_def port_write_def is_run_stopped_def sleep_def split: list.splits)

declare k2700_read_result.simps [simp del]

text \<open>
  \<open>call\<close> of the multimeter:
  \<^verbatim>\<open>self.port.write("form:elem READ\n;FETCh?")
  answer = self.port.read()
  readings_list = np.array([float(x) for x in answer.strip("\n").split(",")])
  if self.scanning: return list(readings_list)
  return [np.mean(readings_list)]\<close>
\<close>

definition newline :: char where
  "newline = CHR 0x0A"

definition readings_of :: "string \<Rightarrow> fval list result" where
  "readings_of answer = map_result py_float (split_sep '','' (strip_chars [newline] answer))"

definition k2700_call :: "k2700 \<Rightarrow> world \<Rightarrow> (fval list \<times> world) result" where
  "k2700_call s w =
     bind_result (port_read (port_write w (''form:elem READ'' @ [newline] @ '';FETCh?''))) (\<lambda>(answer, w').
     bind_result (readings_of answer) (\<lambda>readings_list.
       if k_scanning s then Inr (readings_list, w')
       else Inr ([np_mean readings_list], w')))"


section \<open>Oscilloscope (Logger-Rohde\&Schwarz\_RTx)\<close>

definition degree :: char where
  "degree = CHR 0xB0"

definition modes :: "(string \<times> string) list" where
  "modes =
    [(''None'', ''NONE''),
     (''Frequency in Hz'', ''FREQ''),
     (''Period time in s'', ''PER''),
     (''Peak to peak in V'', ''PEAK''),
     (''Maximum peak in V'', ''UPE''),
     (''Minimum peak in V'', ''LPE''),
     (''Positive pulse count'', ''PPC''),
     (''Negative pulse count'', ''NPC''),
     (''Rising edge count'', ''REC''),
     (''Falling edge count'', ''FEC''),
     (''High reference in V'', ''HIGH''),
     (''Low reference in V'', ''LOW''),
     (''Amplitude in V'', ''AMPL''),
     (''Mean in V'', ''MEAN''),
     (''RMS in V'', ''RMS''),
     (''Rise time in s'', ''RTIM''),
     (''Fall time in s'', ''FTIM''),
     (''Positive duty cycle in %'', ''PDCY''),
     (''Negative duty cycle in %'', ''NDCY''),
     (''Positive pulse width in s'', ''PPW''),
     (''Negative pulse width in s'', ''NPW''),
     (''Cycle mean in V'', ''CYCM''),
     (''Cycle RMS in V'', ''CYCR''),
     (''STDDev'', ''STDD''),
     (''CYCStddev'', ''CYCS''),
     (''Delay in s'', ''DEL''),
     (''Phase difference in '' @ [degree], ''PHAS''),
     (''Burst width in s'', ''BWID''),
     (''Positive overshoot in %'', ''POV''),
     (''Negative overshoot in %'', ''NOV'')]"

definition maximum_measurement_places :: int where
  "maximum_measurement_places = 6"

text \<open>
  \<open>measurement_places\<close> is a dictionary from the place number to the tuple of channel,
  mode code and statistics; a Python dictionary keeps insertion order, so it is an
  association list updated with \<open>AList.update\<close>.
\<close>

record rtx =
  r_variables :: "string list"
  r_units :: "string list"
  r_plottype :: "bool list"
  r_savetype :: "bool list"
  r_measurement_places :: "(int \<times> (int \<times> string \<times> string)) list"
  r_use_preset :: bool
  r_waveform_count :: int

text \<open>The GUI parameters: a dictionary from field names to the chosen strings.\<close>

type_synonym parameters = "string \<rightharpoonup> string"

text \<open>
  \<open>parse_parameter(func, parameters, key, fallback)\<close>: any exception, of the lookup or of
  the conversion, gives the fallback.
\<close>

definition parse_parameter :: "(string \<Rightarrow> 'a result) \<Rightarrow> parameters \<Rightarrow> string \<Rightarrow> 'a \<Rightarrow> 'a" where
  "parse_parameter func parameters key fallback =
     (case parameters key of
        None \<Rightarrow> fallback
      | Some v \<Rightarrow> (case func v of Inl _ \<Rightarrow> fallback | Inr x \<Rightarrow> x))"

text \<open>\<open>parameters.get(key, default)\<close>.\<close>

definition get_or :: "parameters \<Rightarrow> string \<Rightarrow> string \<Rightarrow> string" where
  "get_or parameters key dflt = (case parameters key of None \<Rightarrow> dflt | Some v \<Rightarrow> v)"

text \<open>The f-string \<^verbatim>\<open>f"Place {place} <field>"\<close>.\<close>

definition place_key :: "int \<Rightarrow> string \<Rightarrow> string" where
  "place_key place field = ''Place '' @ str_int place @ '' '' @ field"

subsection \<open>Parameter binding\<close>

text \<open>
  The loop of \<open>apply_gui_parameters\<close> over the places:
  \<^verbatim>\<open>channel = parameters.get(f"Place {place} channel", "None")
  mode = parameters.get(f"Place {place} mode", "None")
  statistics = parameters.get(f"Place {place} statistics", "None")
  if channel != "None" and mode != "None":
      channel_num = int(channel[-1])
      self.measurement_places[place] = (channel_num, self.modes[mode], statistics)
      mode_short = mode.split(" in ")[0]
      self.variables.append(f"{channel} {mode_short}")
      self.units.append(mode.split(" in ")[-1])
      self.plottype.append(True)
      self.savetype.append(True)\<close>
\<close>

definition apply_place :: "parameters \<Rightarrow> int \<Rightarrow> rtx \<Rightarrow> rtx result" where
  "apply_place parameters place s =
     (let channel = get_or parameters (place_key place ''channel'') ''None'';
          mode = get_or parameters (place_key place ''mode'') ''None'';
          statistics = get_or parameters (place_key place ''statistics'') ''None''
      in if channel \<noteq> ''None'' \<and> mode \<noteq> ''None'' then
           bind_result (last_item channel) (\<lambda>c.
           bind_result (py_int [c]) (\<lambda>channel_num.
           bind_result (lookup modes mode) (\<lambda>code.
             let mode_short = hd (split_sep '' in '' mode)
             in Inr (s\<lparr>r_measurement_places :=
                          AList.update place (channel_num, code, statistics)
                            (r_measurement_places s),
                        r_variables := r_variables s @ [channel @ '' '' @ mode_short],
                        r_units := r_units s @ [last (split_sep '' in '' mode)],
                        r_plottype := r_plottype s @ [True],
                        r_savetype := r_savetype s @ [True]\<rparr>))))
         else Inr s)"

fun apply_places :: "parameters \<Rightarrow> int list \<Rightarrow> rtx \<Rightarrow> rtx result" where
  "apply_places parameters [] s = Inr s"
| "apply_places parameters (place # places) s =
     bind_result (apply_place parameters place s) (apply_places parameters places)"

definition apply_gui_parameters :: "parameters \<Rightarrow> rtx \<Rightarrow> rtx result" where
  "apply_gui_parameters parameters s =
     (let s0 = s\<lparr>r_waveform_count := parse_parameter py_int parameters ''Waveform count'' 1,
                  r_measurement_places := [],
                  r_variables := [], r_units := [], r_plottype := [], r_savetype := []\<rparr>
      in if r_use_preset s0 then
           Inr (s0\<lparr>r_variables := map (\<lambda>n. ''Place '' @ str_int n) [1..maximum_measurement_places],
                    r_units := replicate (nat maximum_measurement_places) [],
                    r_plottype := replicate (nat maximum_measurement_places) True,
                    r_savetype := replicate (nat maximum_measurement_places) True\<rparr>)
         else
           (let number_of_places =
                  parse_parameter py_int parameters ''Number of places'' maximum_measurement_places
            in apply_places parameters [1..number_of_places] s0))"

subsection \<open>Instrument queries\<close>

definition meas :: "int \<Rightarrow> string \<Rightarrow> string" where
  "meas place cmd = ''MEAS'' @ str_int place @ cmd"

definition get_source :: "int \<Rightarrow> world \<Rightarrow> (string \<times> world) result" where
  "get_source place w = port_read (port_write w (meas place '':SOUR?''))"

definition get_measurement_mode :: "int \<Rightarrow> world \<Rightarrow> (string \<times> world) result" where
  "get_measurement_mode place w = port_read (port_write w (meas place '':MAIN?''))"

definition get_waveform_count :: "int \<Rightarrow> world \<Rightarrow> (int \<times> world) result" where
  "get_waveform_count place w =
     bind_result (port_read (port_write w (meas place '':RES:WFMCount?''))) (\<lambda>(r, w').
     bind_result (py_int r) (\<lambda>n. Inr (n, w')))"

text \<open>
  The decoder of \<open>read_result_and_handle_error\<close>, applied to the string read:
  \<^verbatim>\<open>float(ret) if ret != "9.91E+37" else float("nan")\<close>
\<close>

definition handle_error :: "string \<Rightarrow> fval result" where
  "handle_error ret = (if ret \<noteq> ''9.91E+37'' then py_float ret else py_float ''nan'')"

definition read_result_and_handle_error :: "world \<Rightarrow> (fval \<times> world) result" where
  "read_result_and_handle_error w =
     bind_result (port_read w) (\<lambda>(ret, w').
     bind_result (handle_error ret) (\<lambda>v. Inr (v, w')))"

definition get_measurement :: "int \<Rightarrow> string \<Rightarrow> world \<Rightarrow> (fval \<times> world) result" where
  "get_measurement place mode w =
     read_result_and_handle_error (port_write w (meas place ('':RES:ACT? '' @ mode)))"

definition get_averaged_measurement :: "int \<Rightarrow> world \<Rightarrow> (fval \<times> world) result" where
  "get_averaged_measurement place w =
     read_result_and_handle_error (port_write w (meas place '':RES:AVG?''))"

definition get_measurement_minimum :: "int \<Rightarrow> world \<Rightarrow> (fval \<times> world) result" where
  "get_measurement_minimum place w =
     read_result_and_handle_error (port_write w (meas place '':RES:NPE?''))"

definition get_measurement_maximum :: "int \<Rightarrow> world \<Rightarrow> (fval \<times> world) result" where
  "get_measurement_maximum place w =
     read_result_and_handle_error (port_write w (meas place '':RES:PPE?''))"

subsection \<open>Lifecycle methods\<close>

text \<open>\<open>connect\<close>: with presets, the places are read back from the instrument.\<close>

definition connect_place :: "int \<Rightarrow> rtx \<Rightarrow> world \<Rightarrow> (rtx \<times> world) result" where
  "connect_place place s w =
     bind_result (get_measurement_mode place w) (\<lambda>(mode, w1).
       if mode \<noteq> ''NONE'' then
         bind_result (get_source place w1) (\<lambda>(src, w2).
         bind_result (py_int src) (\<lambda>source.
           Inr (s\<lparr>r_measurement_places :=
                      AList.update place (source, mode, ''Average'') (r_measurement_places s)\<rparr>,
                w2)))
       else Inr (s, w1))"

fun connect_places :: "int list \<Rightarrow> rtx \<Rightarrow> world \<Rightarrow> (rtx \<times> world) result" where
  "connect_places [] s w = Inr (s, w)"
| "connect_places (place # places) s w =
     bind_result (connect_place place s w) (\<lambda>(s', w'). connect_places places s' w')"

definition connect :: "rtx \<Rightarrow> world \<Rightarrow> (rtx \<times> world) result" where
  "connect s w =
     (if r_use_preset s
      then connect_places [1..maximum_measurement_places] (s\<lparr>r_measurement_places := []\<rparr>) w
      else Inr (s, w))"

text \<open>
  \<open>request_result\<close>:
  \<^verbatim>\<open>if self.waveform_count > 1:
      for place in self.measurement_places:
          while self.get_waveform_count(place) < self.waveform_count:
              time.sleep(0.1)\<close>
  The inner loop takes one answer per round.
\<close>

lemma get_waveform_count_pending:
  "get_waveform_count place w = Inr (n, w') \<Longrightarrow> length (pending w') < length (pending w)"
  by (auto simp: get_waveform_count_def port_read_def port_write_def bind_result_def
      split: list.splits sum.splits)

function wait_for_waveforms :: "int \<Rightarrow> int \<Rightarrow> world \<Rightarrow> world result" where
  "wait_for_waveforms waveform_count place w =
     bind_result (get_waveform_count place w) (\<lambda>(n, w').
       if n < waveform_count then wait_for_waveforms waveform_count place (sleep w' (1 / 10))
       else Inr w')"
  by pat_completeness auto
termination
  by (relation "measure (\<lambda>(c, p, w). length (pending w))")
     (auto simp: sleep_def dest: get_waveform_count_pending)

declare wait_for_waveforms.simps [simp del]

fun wait_places :: "int \<Rightarrow> int list \<Rightarrow> world \<Rightarrow> world result" where
  "wait_places waveform_count [] w = Inr w"
| "wait_places waveform_count (place # places) w =
     bind_result (wait_for_waveforms waveform_count place w) (wait_places waveform_count places)"

definition request_result :: "rtx \<Rightarrow> world \<Rightarrow> world result" where
  "request_result s w =
     (if r_waveform_count s > 1
      then wait_places (r_waveform_count s) (map fst (r_measurement_places s)) w
      else Inr w)"

text \<open>
  \<open>call\<close> of the oscilloscope: one query per measurement place, in the order of the
  dictionary, then the padding with not-a-number in preset mode.
\<close>

definition measure_place :: "int \<times> (int \<times> string \<times> string) \<Rightarrow> world \<Rightarrow> (fval \<times> world) result" where
  "measure_place item w =
     (case item of (place, (_, mode, statistics)) \<Rightarrow>
        if statistics = ''Minimum'' then get_measurement_minimum place w
        else if statistics = ''Maximum'' then get_measurement_maximum place w
        else if statistics = ''Average'' then get_averaged_measurement place w
        else if statistics = ''Current'' then get_measurement place mode w
        else get_measurement place mode w)"

fun measure_places ::
  "(int \<times> (int \<times> string \<times> string)) list \<Rightarrow> fval list \<Rightarrow> world \<Rightarrow> (fval list \<times> world) result" where
  "measure_places [] measured_results w = Inr (measured_results, w)"
| "measure_places (item # items) measured_results w =
     bind_result (measure_place item w) (\<lambda>(result, w').
       measure_places items (measured_results @ [result]) w')"

definition rtx_call :: "rtx \<Rightarrow> world \<Rightarrow> (fval list \<times> world) result" where
  "rtx_call s w =
     bind_result (measure_places (r_measurement_places s) [] w) (\<lambda>(measured_results, w').
       if r_use_preset s \<and> int (length measured_results) < maximum_measurement_places then
         (let diff = maximum_measurement_places - int (length measured_results)
          in Inr (measured_results @ replicate (nat diff) NaN, w'))
       else Inr (measured_results, w'))"


section \<open>Example configurations\<close>

text \<open>
  For each driver, a state before the first binding, holding the values that \<open>__init__\<close>
  writes to the attributes (an attribute that only the parameter binding assigns holds a
  placeholder), and parameter dictionaries built from the defaults of the GUI; and a world
  with given instrument answers and a given stop signal. For the lock-in this state is an
  example only: its \<open>__init__\<close> calls \<open>self._value_to_float\<close>, which the file does
  not define, before it reaches the result attributes. The properties below hold for every
  state; the states here serve to show that their hypotheses can be met.
\<close>

definition lockin_init :: lockin where
  "lockin_init =
     \<lparr>l_sweepmode = ''None'', l_source = ''Internal'', l_input = ''Voltage A, Front'',
      l_coupling = ''Fast'', l_slope = ''12 dB/octave'', l_ground = ''Ground'',
      l_sensitivity = ''Auto sensitivity'', l_filter1 = ''Off'', l_filter2 = ''Sync filter off'',
      l_gain = ''Auto gain'', l_timeconstant = [], l_waittimeconstants = NaN,
      l_variables = [], l_units = [], l_plottype = [], l_savetype = [],
      l_frq = Fin 0, l_r = Fin 0, l_phi = Fin 0, l_sen = Fin 0, l_nhz = Fin 0,
      l_acg = 0, l_acg_dB = 0, l_time_ref = 0\<rparr>"

definition lockin_parameter_example :: "string \<Rightarrow> string \<Rightarrow> lockin_parameter" where
  "lockin_parameter_example tc wtc =
     \<lparr>p_SweepMode = ''None'', p_Source = ''Internal'', p_Input = ''Voltage A, Front'',
      p_Coupling = ''Fast'', p_Slope = ''12 dB/octave'', p_Ground = ''Ground'',
      p_Sensitivity = ''Auto sensitivity'', p_Filter1 = ''Off'', p_Filter2 = ''Sync filter off'',
      p_Gain = ''Auto gain'', p_TimeConstant = tc, p_WaitTimeConstants = wtc\<rparr>"

definition world_init :: "string list \<Rightarrow> (nat \<Rightarrow> bool) \<Rightarrow> world" where
  "world_init answers stop = \<lparr>pending = answers, stop_at = stop, ticks = 0, log = []\<rparr>"

definition k2700_init :: k2700 where
  "k2700_init =
     \<lparr>k_mode = [], k_digits = [], k_channel_string = [], k_channel_list = [],
      k_channel_names = [], k_trigger_type = [], k_scanning = False, k_range = [],
      k_integration_speed = [], k_temperature_unit = [], k_port_string = [],
      k_variables = [''Variable1''], k_units = [''Unit1''],
      k_plottype = [True], k_savetype = [True]\<rparr>"

definition k2700_parameter_example :: "string \<Rightarrow> bool \<Rightarrow> k2700_parameter" where
  "k2700_parameter_example channels scanning =
     \<lparr>p_Mode = ''Voltage DC'', p_Digits = ''4'', p_Channel_list = channels,
      p_Trigger = ''Immediate'', p_Scanning = scanning, p_Range = ''Auto'',
      p_Integration_speed = ''Fast'', p_Temperature_unit = ''K'', p_Port = ''GPIB0::16::INSTR''\<rparr>"

definition rtx_init :: rtx where
  "rtx_init =
     \<lparr>r_variables = [], r_units = [], r_plottype = [], r_savetype = [],
      r_measurement_places = [], r_use_preset = False, r_waveform_count = 1\<rparr>"

definition channel_without_mode :: parameters where
  "channel_without_mode =
     [''Number of places'' \<mapsto> ''1'', ''Place 1 channel'' \<mapsto> ''CH1'', ''Place 1 mode'' \<mapsto> ''None'']"

definition one_place_of_two :: parameters where
  "one_place_of_two =
     [''Number of places'' \<mapsto> ''2'', ''Waveform count'' \<mapsto> ''2'',
      ''Place 1 channel'' \<mapsto> ''CH1'', ''Place 1 mode'' \<mapsto> ''Frequency in Hz'']"

section \<open>Vocabulary of the properties\<close>

text \<open>The rule of the table \<open>chars\<close> for one character.\<close>

definition unit_rule :: "char \<Rightarrow> string" where
  "unit_rule c = (case map_of chars [c] of None \<Rightarrow> [c] | Some rep \<Rightarrow> rep)"


text \<open>A string that is the decimal form of an integer, as \<open>str\<close> prints it.\<close>

definition is_int_string :: "string \<Rightarrow> bool" where
  "is_int_string x = (case py_int x of Inl _ \<Rightarrow> False | Inr n \<Rightarrow> str_int n = x)"

text \<open>The command that \<open>call\<close> of the multimeter writes.\<close>

definition fetch_command :: string where
  "fetch_command = ''form:elem READ'' @ [newline] @ '';FETCh?''"

text \<open>The selections of a place in the GUI parameters of the oscilloscope.\<close>

definition channel_of :: "parameters \<Rightarrow> int \<Rightarrow> string" where
  "channel_of ps place = get_or ps (place_key place ''channel'') ''None''"

definition mode_of :: "parameters \<Rightarrow> int \<Rightarrow> string" where
  "mode_of ps place = get_or ps (place_key place ''mode'') ''None''"

definition place_configured :: "parameters \<Rightarrow> int \<Rightarrow> bool" where
  "place_configured ps place = (channel_of ps place \<noteq> ''None'' \<and> mode_of ps place \<noteq> ''None'')"

text \<open>
  The invariant of the oscilloscope state between binding and \<open>call\<close>: one variable per
  measurement place, or, with presets, six variables and at most six places.
\<close>

definition rtx_consistent :: "rtx \<Rightarrow> bool" where
  "rtx_consistent s =
     (if r_use_preset s
      then int (length (r_variables s)) = maximum_measurement_places \<and>
           int (length (r_measurement_places s)) \<le> maximum_measurement_places
      else length (r_variables s) = length (r_measurement_places s))"

text \<open>
  A log in which every sleep comes after a check of the stop signal made since the previous
  sleep (\<open>checked\<close> says whether such a check has been seen).
\<close>

fun stop_checked_before_sleep :: "bool \<Rightarrow> event list \<Rightarrow> bool" where
  "stop_checked_before_sleep checked [] = True"
| "stop_checked_before_sleep checked (StopCheck b # evs) = stop_checked_before_sleep True evs"
| "stop_checked_before_sleep checked (Slept d # evs) =
     (checked \<and> stop_checked_before_sleep False evs)"
| "stop_checked_before_sleep checked (Wrote c # evs) = stop_checked_before_sleep checked evs"
| "stop_checked_before_sleep checked (Got r # evs) = stop_checked_before_sleep checked evs"

text \<open>
  A channel string written out: a first group and further groups, each with the separator
  in front of it.
\<close>

definition channel_string_of :: "string \<Rightarrow> (char \<times> string) list \<Rightarrow> string" where
  "channel_string_of g rest = g @ concat (map (\<lambda>(c, x). c # x) rest)"

section \<open>Verified properties\<close>

subsection \<open>Printing and reading integers\<close>

lemma is_digit_digit_char: "d < 10 \<Longrightarrow> is_digit (digit_char d)"
  by (simp add: is_digit_def digit_char_def)

lemma digit_val_digit_char: "d < 10 \<Longrightarrow> digit_val (digit_char d) = d"
  by (simp add: digit_val_def digit_char_def)

lemma is_digit_not_space: "is_digit c \<Longrightarrow> \<not> is_numeric_space c"
  by (auto simp: is_digit_def is_numeric_space_def)

lemma is_digit_not_sign: "is_digit c \<Longrightarrow> c \<noteq> CHR ''-'' \<and> c \<noteq> CHR ''+'' \<and> c \<noteq> CHR ''_'' \<and> c \<noteq> CHR '':''"
  by (auto simp: is_digit_def)

lemma str_nat_digits: "\<forall>c \<in> set (str_nat n). is_digit c"
proof (induction n rule: str_nat.induct)
  case (1 n)
  show ?case
  proof (cases "n < 10")
    case True
    then show ?thesis by (subst str_nat.simps) (simp add: is_digit_digit_char)
  next
    case False
    with 1 show ?thesis by (subst str_nat.simps) (simp add: is_digit_digit_char)
  qed
qed

lemma str_nat_nonempty: "str_nat n \<noteq> []"
  by (subst str_nat.simps) simp

lemma digitpart_rest_all_digits: "\<forall>c \<in> set s. is_digit c \<Longrightarrow> digitpart_rest s = Some s"
  by (induction s) auto

lemma digitpart_all_digits: "s \<noteq> [] \<Longrightarrow> \<forall>c \<in> set s. is_digit c \<Longrightarrow> digitpart s = Some s"
  by (cases s) (auto simp: digitpart_def digitpart_rest_all_digits)

lemma nat_of_digits_snoc: "nat_of_digits (ds @ [c]) = 10 * nat_of_digits ds + digit_val c"
  by (simp add: nat_of_digits_def)

lemma nat_of_digits_str_nat: "nat_of_digits (str_nat n) = n"
proof (induction n rule: str_nat.induct)
  case (1 n)
  show ?case
  proof (cases "n < 10")
    case True
    then show ?thesis
      by (subst str_nat.simps) (simp add: nat_of_digits_def digit_val_digit_char)
  next
    case False
    with 1 show ?thesis
      by (subst str_nat.simps) (simp add: nat_of_digits_snoc digit_val_digit_char)
  qed
qed

lemma strip_where_id: "s \<noteq> [] \<Longrightarrow> \<not> P (hd s) \<Longrightarrow> \<not> P (last s) \<Longrightarrow> strip_where P s = s"
proof -
  assume a: "s \<noteq> []" "\<not> P (hd s)" "\<not> P (last s)"
  then have "dropWhile P s = s" by (cases s) auto
  moreover from a have "dropWhile P (rev s) = rev s"
    by (cases "rev s") (auto simp: last_rev hd_rev dest: arg_cong[where f=hd])
  ultimately show ?thesis by (simp add: strip_where_def)
qed

lemma py_int_digits:
  assumes "ds \<noteq> []" and "\<forall>c \<in> set ds. is_digit c"
  shows "py_int ds = Inr (int (nat_of_digits ds))"
    and "py_int (CHR ''-'' # ds) = Inr (- int (nat_of_digits ds))"
proof -
  have hd: "is_digit (hd ds)" and la: "is_digit (last ds)" using assms by auto
  have "strip_numeric ds = ds"
    unfolding strip_numeric_def
    by (rule strip_where_id) (use assms hd la in \<open>auto simp: is_digit_not_space\<close>)
  moreover have "split_sign ds = (False, ds)"
    using assms(1) hd by (cases ds) (auto simp: split_sign_def dest: is_digit_not_sign)
  ultimately show "py_int ds = Inr (int (nat_of_digits ds))"
    by (simp add: py_int_def digitpart_all_digits[OF assms])
  have "strip_numeric (CHR ''-'' # ds) = CHR ''-'' # ds"
    unfolding strip_numeric_def
  proof (rule strip_where_id)
    show "CHR ''-'' # ds \<noteq> []" by simp
    show "\<not> is_numeric_space (hd (CHR ''-'' # ds))" by (simp add: is_numeric_space_def)
    show "\<not> is_numeric_space (last (CHR ''-'' # ds))" using assms(1) la by (simp add: is_digit_not_space)
  qed
  then show "py_int (CHR ''-'' # ds) = Inr (- int (nat_of_digits ds))"
    by (simp add: py_int_def split_sign_def digitpart_all_digits[OF assms])
qed

lemma py_int_str_int: "py_int (str_int i) = Inr i"
  using py_int_digits[OF str_nat_nonempty str_nat_digits]
  by (simp add: str_int_def nat_of_digits_str_nat)

lemma str_int_inj: "str_int a = str_int b \<Longrightarrow> a = b"
  by (metis py_int_str_int Inr_inject)

lemma inv_gains_value:
  "inv_gains = Inr [(0,0),(1,10),(2,20),(3,30),(4,40),(5,50),(6,60),(7,70),(8,80),(9,90)]"
  by code_simp


subsection \<open>The inverse gain table\<close>

text \<open>
  What the comprehension computes for one entry, as a check that can be evaluated: both
  conversions succeed, the entry is the printed form of the two numbers, and the table maps
  the code to the decibel value.
\<close>

definition gain_entry_ok :: "(int \<times> int) list \<Rightarrow> string \<times> string \<Rightarrow> bool" where
  "gain_entry_ok m kv =
     (case (py_int (take (length (fst kv) - 3) (fst kv)), py_int (drop 20 (snd kv))) of
        (Inr n, Inr c) \<Rightarrow> fst kv = str_int n @ '' dB'' \<and> snd kv = ''AUTOMATIC 0; ACGAIN '' @ str_int c
                            \<and> map_of m c = Some n
      | _ \<Rightarrow> False)"

lemma gains_entries_ok:
  "\<forall>kv \<in> set gains. startswith (snd kv) ''AUTOMATIC 0; ACGAIN'' \<longrightarrow>
     gain_entry_ok [(0,0),(1,10),(2,20),(3,30),(4,40),(5,50),(6,60),(7,70),(8,80),(9,90)] kv"
  by code_simp

lemma gain_entry_okD:
  assumes "gain_entry_ok m (str_int n @ '' dB'', ''AUTOMATIC 0; ACGAIN '' @ str_int c)"
  shows "map_of m c = Some n"
  using assms by (simp add: gain_entry_ok_def py_int_str_int)

lemma gain_entry_okE:
  assumes "gain_entry_ok m (k, v)"
  shows "\<exists>n c. k = str_int n @ '' dB'' \<and> v = ''AUTOMATIC 0; ACGAIN '' @ str_int c"
  using assms unfolding gain_entry_ok_def by (auto split: sum.splits)

text \<open>
  C2. The inverse gain table built in \<open>__init__\<close> succeeds; for every gain entry with label
  \<open>N dB\<close> and command \<open>AUTOMATIC 0; ACGAIN c\<close> it maps the device code \<open>c\<close> to the
  decibel value \<open>N\<close>; every entry whose command starts with the auto-gain-disabled prefix
  has that form; and the \<open>Auto gain\<close> entry contributes nothing, so the table has one
  entry less than the gain table.
\<close>

theorem inv_gains_recovers_decibels:
  "\<exists>m. inv_gains = Inr m \<and>
     (\<forall>n c. (str_int n @ '' dB'', ''AUTOMATIC 0; ACGAIN '' @ str_int c) \<in> set gains
        \<longrightarrow> map_of m c = Some n) \<and>
     (\<forall>(k, v) \<in> set gains. startswith v ''AUTOMATIC 0; ACGAIN''
        \<longrightarrow> (\<exists>n c. k = str_int n @ '' dB'' \<and> v = ''AUTOMATIC 0; ACGAIN '' @ str_int c)) \<and>
     length m = length gains - 1 \<and>
     inv_gains_of [(''Auto gain'', ''AUTOMATIC 1'')] [] = Inr []"
proof -
  let ?m = "[(0,0),(1,10),(2,20),(3,30),(4,40),(5,50),(6,60),(7,70),(8,80),(9,90)] :: (int \<times> int) list"
  have 1: "inv_gains = Inr ?m" by (rule inv_gains_value)
  have 2: "map_of ?m c = Some n"
    if "(str_int n @ '' dB'', ''AUTOMATIC 0; ACGAIN '' @ str_int c) \<in> set gains" for n c
  proof -
    have "startswith (''AUTOMATIC 0; ACGAIN '' @ str_int c) ''AUTOMATIC 0; ACGAIN''"
      by (simp add: startswith_def)
    with that gains_entries_ok show ?thesis by (fastforce intro: gain_entry_okD)
  qed
  have 3: "\<exists>n c. k = str_int n @ '' dB'' \<and> v = ''AUTOMATIC 0; ACGAIN '' @ str_int c"
    if "(k, v) \<in> set gains" "startswith v ''AUTOMATIC 0; ACGAIN''" for k v
    using that gains_entries_ok by (fastforce intro: gain_entry_okE)
  have 4: "length ?m = length gains - 1" by (simp add: gains_def)
  have 5: "inv_gains_of [(''Auto gain'', ''AUTOMATIC 1'')] [] = Inr []"
    by (simp add: startswith_def)
  from 1 2 3 4 5 show ?thesis by blast
qed

theorem inv_gains_recovers_decibels_witness:
  "(str_int 30 @ '' dB'', ''AUTOMATIC 0; ACGAIN '' @ str_int 3) \<in> set gains \<and>
   (\<exists>m. inv_gains = Inr m \<and> map_of m 3 = Some 30)"
proof -
  have "(str_int 30 @ '' dB'', ''AUTOMATIC 0; ACGAIN '' @ str_int 3) \<in> set gains"
    by code_simp
  with inv_gains_recovers_decibels show ?thesis by blast
qed

subsection \<open>Evaluation of the parsers\<close>

lemmas py_eval = strip_numeric_def strip_where_def is_numeric_space_def py_isspace_def
  split_sign_def ascii_lower_def float_overflows_def
  parse_floatnumber_def is_exp_letter_def parse_number_def parse_exponent_def digitpart_def
  is_digit_def nat_of_digits_def digit_val_def scale10_def py_float_def py_int_def

lemma replace_single:
  "replace [c] new s = concat (map (\<lambda>x. if x = c then new else [x]) s)"
proof (induction s)
  case Nil
  show ?case by (subst replace.simps) simp
next
  case (Cons a s)
  then show ?case by (subst replace.simps) (simp add: startswith_def)
qed

lemmas unit_eval = unit_to_float_def replace_units_def chars_def replace_single micro_def


lemma unit_to_float_1k: "unit_to_float ''1k'' = Inl ValueError"
  by (simp add: unit_eval py_eval)

lemma k_labels_raise:
  "\<forall>(label, cmd) \<in> set timeconstants. label \<noteq> [] \<and> last label = CHR ''k''
      \<longrightarrow> unit_to_float label = Inl ValueError"
  by (simp add: timeconstants_def unit_eval py_eval)

lemma k_labels: "filter (\<lambda>label. label \<noteq> [] \<and> last label = CHR ''k'') (map fst timeconstants)
   = [''1k'', ''2k'', ''5k'', ''10k'', ''20k'', ''50k'', ''100k'']"
  by (simp add: timeconstants_def micro_def)

subsection \<open>Lock-in: unit conversion and settle time\<close>

lemma concat_map_concat_map:
  "concat (map f (concat (map g xs))) = concat (map (\<lambda>x. concat (map f (g x))) xs)"
  by (induction xs) auto

lemma micro_neq: "micro \<noteq> CHR ''V''" "micro \<noteq> CHR ''s''" "micro \<noteq> CHR '' ''" "micro \<noteq> CHR ''n''" "micro \<noteq> CHR ''m''"
  "micro \<noteq> CHR ''e''" "micro \<noteq> CHR ''-''" "micro \<noteq> CHR ''9''" "micro \<noteq> CHR ''6''" "micro \<noteq> CHR ''3''"
  by (simp_all add: micro_def)

lemma replace_units_charwise: "replace_units unit = concat (map unit_rule unit)"
proof -
  have "replace_units unit =
        concat (map (\<lambda>x. if x = CHR ''V'' \<or> x = CHR ''s'' \<or> x = CHR '' '' then []
                          else if x = CHR ''n'' then ''e-9''
                          else if x = micro then ''e-6''
                          else if x = CHR ''m'' then ''e-3'' else [x]) unit)"
    unfolding replace_units_def chars_def
    by (simp add: replace_single concat_map_concat_map micro_neq cong: if_cong)
       (rule arg_cong[where f=concat], rule map_cong, auto simp: micro_neq micro_neq[symmetric])
  also have "\<dots> = concat (map unit_rule unit)"
    by (rule arg_cong[where f=concat], rule map_cong)
       (auto simp: unit_rule_def chars_def micro_neq micro_neq[symmetric])
  finally show ?thesis .
qed

lemma bind_result_simps [simp]:
  "bind_result (Inl e) f = Inl e"
  "bind_result (Inr x) f = f x"
  by (simp_all add: bind_result_def)

lemma trigger_ready_delta:
  assumes "unit_to_float (l_timeconstant s) = Inr (Fin tc)"
    and "l_waittimeconstants s = Fin wtc"
  shows "trigger_ready now s w =
           (if wtc * tc - (now - l_time_ref s) > 0
            then sleep_float w (Fin (wtc * tc - (now - l_time_ref s))) else Inr w)"
proof -
  have "fsub (fmul (Fin wtc) (Fin tc)) (Fin (now - l_time_ref s))
          = Fin (wtc * tc - (now - l_time_ref s))"
    by (simp add: fsub_def fneg_def fmul_def)
  moreover have "fpositive (Fin q) = (q > 0)" for q
    by (simp add: fpositive_def fsign_def)
  ultimately show ?thesis
    using assms by (simp add: trigger_ready_def Let_def)
qed

lemma sleep_limit_positive: "0 < sleep_limit"
  by (simp add: sleep_limit_def)


lemma sleep_float_beyond: "sleep_limit < q \<Longrightarrow> sleep_float w (Fin q) = Inl OverflowError"
  by (simp add: sleep_float_def)


text \<open>
  Beyond the range of \<open>time.sleep\<close> the poller does not sleep: it raises OverflowError
  (for instance with the time constant \<open>500\<close> and the multiplier \<open>2e7\<close>).
\<close>

lemma trigger_ready_beyond:
  assumes "unit_to_float (l_timeconstant s) = Inr (Fin tc)"
    and "l_waittimeconstants s = Fin wtc"
    and "sleep_limit < wtc * tc - (now - l_time_ref s)"
  shows "trigger_ready now s w = Inl OverflowError"
proof -
  from assms(3) sleep_limit_positive have "0 < wtc * tc - (now - l_time_ref s)" by simp
  with assms(3) show ?thesis
    by (simp add: trigger_ready_delta[OF assms(1,2)] sleep_float_beyond)
qed

lemma trigger_ready_beyond_example:
  "py_float ''2e7'' = Inr (Fin 20000000) \<and>
   trigger_ready 0 (lockin_init\<lparr>l_timeconstant := ''500'', l_waittimeconstants := Fin 20000000\<rparr>) w
     = Inl OverflowError"
proof -
  let ?s = "lockin_init\<lparr>l_timeconstant := ''500'', l_waittimeconstants := Fin 20000000\<rparr>"
  have u: "unit_to_float (l_timeconstant ?s) = Inr (Fin 500)"
    by (simp add: unit_eval py_eval)
  have v: "l_waittimeconstants ?s = Fin 20000000" by simp
  have b: "sleep_limit < 20000000 * 500 - (0 - l_time_ref ?s)"
    by (simp add: lockin_init_def sleep_limit_def)
  have "py_float ''2e7'' = Inr (Fin 20000000)" by (simp add: py_eval)
  with trigger_ready_beyond[OF u v b] show ?thesis by simp
qed



lemma lockin_bind_example_ok:
  "\<exists>s. lockin_get_GUIparameter (lockin_parameter_example ''100m'' ''4.0'') s0 = Inr s"
  by (simp add: lockin_get_GUIparameter_def lockin_parameter_example_def py_eval Let_def)

text \<open>
  C10. \<open>unit_to_float\<close> rewrites a unit character by character with the six rules of its
  table (\<open>V\<close>, \<open>s\<close>, space, \<open>n\<close>, the micro sign, \<open>m\<close>) and leaves every other character,
  \<open>k\<close> among them, as it is. The labels of \<open>timeconstants\<close> that end in \<open>k\<close> are \<open>1k\<close> to
  \<open>100k\<close>; for each of them the conversion raises ValueError, and so does \<open>trigger_ready\<close>
  whenever such a label is the configured time constant.
\<close>

theorem unit_to_float_kilo_raises:
  "(\<forall>unit. replace_units unit = concat (map unit_rule unit)) \<and>
   map fst chars = [''V'', ''s'', '' '', ''n'', [micro], ''m''] \<and>
   unit_rule (CHR ''k'') = ''k'' \<and>
   filter (\<lambda>label. label \<noteq> [] \<and> last label = CHR ''k'') (map fst timeconstants)
     = [''1k'', ''2k'', ''5k'', ''10k'', ''20k'', ''50k'', ''100k''] \<and>
   (\<forall>(label, cmd) \<in> set timeconstants. label \<noteq> [] \<and> last label = CHR ''k'' \<longrightarrow>
      unit_to_float label = Inl ValueError \<and>
      (\<forall>now s w. l_timeconstant s = label \<longrightarrow> trigger_ready now s w = Inl ValueError))"
proof -
  have 1: "\<forall>unit. replace_units unit = concat (map unit_rule unit)"
    by (simp add: replace_units_charwise)
  have 2: "map fst chars = [''V'', ''s'', '' '', ''n'', [micro], ''m'']"
    by (simp add: chars_def)
  have 3: "unit_rule (CHR ''k'') = ''k''"
    by (simp add: unit_rule_def chars_def micro_def)
  have 5: "unit_to_float label = Inl ValueError \<and>
      (\<forall>now s w. l_timeconstant s = label \<longrightarrow> trigger_ready now s w = Inl ValueError)"
    if "(label, cmd) \<in> set timeconstants" "label \<noteq> [] \<and> last label = CHR ''k''" for label cmd
  proof -
    from that k_labels_raise have "unit_to_float label = Inl ValueError" by fastforce
    then show ?thesis by (simp add: trigger_ready_def)
  qed
  from 1 2 3 k_labels 5 show ?thesis by blast
qed

theorem unit_to_float_kilo_raises_witness:
  "(''1k'', ''TC 23'') \<in> set timeconstants \<and> ''1k'' \<noteq> [] \<and> last ''1k'' = CHR ''k'' \<and>
   unit_to_float ''1k'' = Inl ValueError \<and>
   l_timeconstant (lockin_init\<lparr>l_timeconstant := ''1k''\<rparr>) = ''1k'' \<and>
   trigger_ready 0 (lockin_init\<lparr>l_timeconstant := ''1k''\<rparr>) (world_init [] (\<lambda>_. False))
     = Inl ValueError"
proof -
  have m: "(''1k'', ''TC 23'') \<in> set timeconstants" by (simp add: timeconstants_def)
  have e: "''1k'' \<noteq> [] \<and> last ''1k'' = CHR ''k''" by simp
  have t: "l_timeconstant (lockin_init\<lparr>l_timeconstant := ''1k''\<rparr>) = ''1k''" by simp
  from unit_to_float_kilo_raises m e t show ?thesis by fastforce
qed



subsection \<open>Multimeter: channel list expansion\<close>

lemma is_int_string_iff: "is_int_string x \<longleftrightarrow> (\<exists>n. x = str_int n)"
  by (auto simp: is_int_string_def py_int_str_int split: sum.splits)

lemma contains_single: "contains s [c] \<longleftrightarrow> c \<in> set s"
  by (induction s) (auto simp: startswith_def)

lemma split_sep_single_Nil: "split_sep [c] [] = [[]]"
  by (subst split_sep.simps) simp

lemma split_sep_nonempty: "split_sep sep s \<noteq> []"
  by (induction sep s rule: split_sep.induct) (subst split_sep.simps, auto split: list.splits)

lemma split_sep_single_Cons:
  "split_sep [c] (x # xs) =
     (if x = c then [] # split_sep [c] xs
      else (x # hd (split_sep [c] xs)) # tl (split_sep [c] xs))"
  using split_sep_nonempty[of "[c]" xs]
  by (subst split_sep.simps) (auto simp: startswith_def split: list.splits)

lemma split_sep_single_notin: "c \<notin> set s \<Longrightarrow> split_sep [c] s = [s]"
  by (induction s) (auto simp: split_sep_single_Nil split_sep_single_Cons)

lemma split_sep_single_append:
  "c \<notin> set xs \<Longrightarrow> split_sep [c] (xs @ c # ys) = xs # split_sep [c] ys"
  by (induction xs) (auto simp: split_sep_single_Cons)

lemma colon_notin_str_int: "CHR '':'' \<notin> set (str_int a)"
  using str_nat_digits is_digit_not_sign by (auto simp: str_int_def)

lemma expand_group_range:
  "expand_group (str_int a @ '':'' @ str_int b) = Inr (map str_int [a..b])"
  by (simp add: expand_group_def contains_single split_sep_single_append
      split_sep_single_notin colon_notin_str_int py_int_str_int)

lemma expand_group_plain: "CHR '':'' \<notin> set x \<Longrightarrow> expand_group x = Inr [x]"
  by (simp add: expand_group_def contains_single)

lemma expand_groups_acc:
  "map_result expand_group gs = Inr yss \<Longrightarrow> expand_groups gs acc = Inr (acc @ concat yss)"
  by (induction gs arbitrary: acc yss) (auto simp: bind_result_def split: sum.splits)

lemma expand_groups_map_result:
  "expand_groups gs acc = Inr ys \<Longrightarrow> \<exists>yss. map_result expand_group gs = Inr yss \<and> ys = acc @ concat yss"
proof (induction gs arbitrary: acc ys)
  case Nil
  then show ?case by simp
next
  case (Cons g gs)
  then obtain new where g: "expand_group g = Inr new"
    and r: "expand_groups gs (acc @ new) = Inr ys"
    by (auto simp: bind_result_def split: sum.splits)
  from Cons.IH[OF r] obtain yss where "map_result expand_group gs = Inr yss"
    and "ys = (acc @ new) @ concat yss" by blast
  with g show ?case by simp
qed

lemma intermediate_list_commas:
  "intermediate_list s = split_sep '';'' (map (\<lambda>c. if c = CHR '','' then CHR '';'' else c) s)"
proof -
  have "concat (map (\<lambda>x. if x = CHR '','' then '';'' else [x]) s)
        = map (\<lambda>c. if c = CHR '','' then CHR '';'' else c) s"
    by (induction s) auto
  then show ?thesis by (simp add: intermediate_list_def replace_single)
qed

lemmas split_eval = split_sep_single_Nil split_sep_single_Cons replace_single

lemmas channel_eval = channel_list_of_def intermediate_list_def expand_group_def
  contains_single split_sep_single_Nil split_sep_single_Cons replace_single py_eval

lemma str_nat_numeral: "str_nat n = (if n < 10 then [digit_char n] else str_nat (n div 10) @ [digit_char (n mod 10)])"
  by (rule str_nat.simps)

lemma digit_char_numeral:
  "digit_char 0 = CHR ''0''" "digit_char 1 = CHR ''1''" "digit_char (Suc 0) = CHR ''1''" "digit_char 2 = CHR ''2''"
  "digit_char 3 = CHR ''3''" "digit_char 4 = CHR ''4''" "digit_char 5 = CHR ''5''"
  "digit_char 6 = CHR ''6''" "digit_char 7 = CHR ''7''" "digit_char 8 = CHR ''8''"
  "digit_char 9 = CHR ''9''"
  by code_simp+

lemma channel_list_101_105:
  "channel_list_of ''101:105'' = Inr [''101'', ''102'', ''103'', ''104'', ''105'']"
  by (simp add: channel_eval upto.simps str_int_def str_nat_numeral digit_char_numeral)

lemma channel_list_mixed:
  "channel_list_of ''101;103;107:109'' = Inr [''101'', ''103'', ''107'', ''108'', ''109'']"
  by (simp add: channel_eval upto.simps str_int_def str_nat_numeral digit_char_numeral)

lemma channel_list_abc: "channel_list_of ''abc'' = Inr [''abc'']"
  by (simp add: channel_eval)

lemma k2700_bind_channel_list:
  "k2700_get_GUIparameter p s = Inr s' \<Longrightarrow> channel_list_of (p_Channel_list p) = Inr (k_channel_list s')"
  by (auto simp: k2700_get_GUIparameter_def bind_result_def Let_def split: sum.splits if_splits)

lemma k2700_bind_example_ok:
  "channel_list_of cs = Inr cl \<Longrightarrow>
     \<exists>s'. k2700_get_GUIparameter (k2700_parameter_example cs sc) s = Inr s'"
  by (simp add: k2700_get_GUIparameter_def k2700_parameter_example_def Let_def lookup_def
      mode_units_def mode_variables_def startswith_def)

lemma k2700_bind_example_channel_list:
  assumes "channel_list_of cs = Inr cl"
  shows "\<exists>s'. k2700_get_GUIparameter (k2700_parameter_example cs sc) s = Inr s' \<and>
              k_channel_list s' = cl"
proof -
  from k2700_bind_example_ok[OF assms] obtain s' where
    b: "k2700_get_GUIparameter (k2700_parameter_example cs sc) s = Inr s'" by blast
  from k2700_bind_channel_list[OF b] assms have "k_channel_list s' = cl"
    by (simp add: k2700_parameter_example_def)
  with b show ?thesis by blast
qed

lemma split_groups:
  assumes "\<forall>x \<in> set (g # map snd rest). CHR '';'' \<notin> set x"
  shows "split_sep '';'' (g @ concat (map (\<lambda>(c, x). CHR '';'' # x) rest)) = g # map snd rest"
  using assms
proof (induction rest arbitrary: g)
  case Nil
  then show ?case by (simp add: split_sep_single_notin)
next
  case (Cons cx rest)
  obtain c x where cx: "cx = (c, x)" by (cases cx)
  from Cons.prems cx have g: "CHR '';'' \<notin> set g"
    and r: "\<forall>y \<in> set (x # map snd rest). CHR '';'' \<notin> set y" by simp_all
  from Cons.IH[OF r] g cx show ?case
    by (simp add: split_sep_single_append)
qed

lemma intermediate_list_groups:
  assumes "\<forall>(c, x) \<in> set rest. c = CHR '','' \<or> c = CHR '';''"
    and "\<forall>x \<in> set (g # map snd rest). CHR '','' \<notin> set x \<and> CHR '';'' \<notin> set x"
  shows "intermediate_list (channel_string_of g rest) = g # map snd rest"
proof -
  let ?f = "\<lambda>c. if c = CHR '','' then CHR '';'' else c"
  have plain: "map ?f x = x" if "CHR '','' \<notin> set x" for x
    using that by (induction x) auto
  have "map ?f (concat (map (\<lambda>(c, x). c # x) rest)) = concat (map (\<lambda>(c, x). CHR '';'' # x) rest)"
    using assms
  proof (induction rest)
    case Nil
    then show ?case by simp
  next
    case (Cons cx rest)
    obtain c x where cx: "cx = (c, x)" by (cases cx)
    from Cons.prems cx have "c = CHR '','' \<or> c = CHR '';''" and "CHR '','' \<notin> set x" by auto
    moreover from Cons have "map ?f (concat (map (\<lambda>(c, x). c # x) rest))
        = concat (map (\<lambda>(c, x). CHR '';'' # x) rest)" by simp
    ultimately show ?case using cx by (auto simp: plain)
  qed
  moreover have "map ?f g = g" using assms(2) by (simp add: plain)
  ultimately have "map ?f (channel_string_of g rest)
      = g @ concat (map (\<lambda>(c, x). CHR '';'' # x) rest)"
    by (simp add: channel_string_of_def)
  moreover have "\<forall>x \<in> set (g # map snd rest). CHR '';'' \<notin> set x" using assms(2) by blast
  ultimately show ?thesis
    by (simp add: intermediate_list_commas split_groups)
qed

lemma k2700_bind_groups:
  assumes "k2700_get_GUIparameter p s = Inr s'"
    and "p_Channel_list p = channel_string_of g rest"
    and "\<forall>(c, x) \<in> set rest. c = CHR '','' \<or> c = CHR '';''"
    and "\<forall>x \<in> set (g # map snd rest). CHR '','' \<notin> set x \<and> CHR '';'' \<notin> set x"
  shows "\<exists>yss. map_result expand_group (g # map snd rest) = Inr yss \<and>
               k_channel_list s' = concat yss"
proof -
  from k2700_bind_channel_list[OF assms(1)] assms(2)
  have "expand_groups (intermediate_list (channel_string_of g rest)) [] = Inr (k_channel_list s')"
    by (simp add: channel_list_of_def)
  then have "expand_groups (g # map snd rest) [] = Inr (k_channel_list s')"
    by (simp only: intermediate_list_groups[OF assms(3,4)])
  from expand_groups_map_result[OF this] show ?thesis by simp
qed

lemma separators_notin_str_int: "CHR '','' \<notin> set (str_int a)" "CHR '';'' \<notin> set (str_int a)"
  using str_nat_digits[of "nat (- a)"] str_nat_digits[of "nat a"]
  by (auto simp: str_int_def is_digit_def)

lemma k2700_bind_range:
  assumes "k2700_get_GUIparameter p s = Inr s'"
    and "p_Channel_list p = str_int a @ '':'' @ str_int b"
  shows "k_channel_list s' = map str_int [a..b]"
proof -
  have c: "p_Channel_list p = channel_string_of (str_int a @ '':'' @ str_int b) []"
    using assms(2) by (simp add: channel_string_of_def)
  have "\<exists>yss. map_result expand_group [str_int a @ '':'' @ str_int b] = Inr yss \<and>
               k_channel_list s' = concat yss"
    using k2700_bind_groups[OF assms(1) c] by (simp add: separators_notin_str_int)
  then show ?thesis using expand_group_range[of a b] by auto
qed

text \<open>
  C5. The channel list that \<open>get_GUIparameter\<close> derives. A binding with the channel string
  \<open>101:105\<close> gives the five channels 101 to 105, one with \<open>101;103;107:109\<close> gives 101,
  103, 107, 108, 109, and with a known mode both bindings succeed from any state. In
  general, when the channel string consists of groups separated by commas or semicolons, in
  any mixture, the channel list of a binding that succeeds is the concatenation of the
  expansions of the groups, in order; a group \<open>a:b\<close> of two printed integers expands to
  every integer from \<open>a\<close> to \<open>b\<close> in ascending order, and a group without a colon is kept
  as one element.
\<close>

theorem channel_range_expansion:
  "(\<forall>p s s'. k2700_get_GUIparameter p s = Inr s' \<and> p_Channel_list p = ''101:105'' \<longrightarrow>
      k_channel_list s' = [''101'', ''102'', ''103'', ''104'', ''105'']) \<and>
   (\<forall>p s s'. k2700_get_GUIparameter p s = Inr s' \<and> p_Channel_list p = ''101;103;107:109'' \<longrightarrow>
      k_channel_list s' = [''101'', ''103'', ''107'', ''108'', ''109'']) \<and>
   (\<forall>s sc. \<exists>s'. k2700_get_GUIparameter (k2700_parameter_example ''101:105'' sc) s = Inr s' \<and>
      k_channel_list s' = [''101'', ''102'', ''103'', ''104'', ''105'']) \<and>
   (\<forall>s sc. \<exists>s'. k2700_get_GUIparameter (k2700_parameter_example ''101;103;107:109'' sc) s = Inr s' \<and>
      k_channel_list s' = [''101'', ''103'', ''107'', ''108'', ''109'']) \<and>
   (\<forall>p s s' g rest.
      k2700_get_GUIparameter p s = Inr s' \<and> p_Channel_list p = channel_string_of g rest \<and>
      (\<forall>(c, x) \<in> set rest. c = CHR '','' \<or> c = CHR '';'') \<and>
      (\<forall>x \<in> set (g # map snd rest). CHR '','' \<notin> set x \<and> CHR '';'' \<notin> set x) \<longrightarrow>
      (\<exists>yss. map_result expand_group (g # map snd rest) = Inr yss \<and>
             k_channel_list s' = concat yss)) \<and>
   (\<forall>p s s' a b.
      k2700_get_GUIparameter p s = Inr s' \<and> p_Channel_list p = str_int a @ '':'' @ str_int b \<longrightarrow>
      k_channel_list s' = map str_int [a..b]) \<and>
   (\<forall>s. intermediate_list s
          = split_sep '';'' (map (\<lambda>c. if c = CHR '','' then CHR '';'' else c) s)) \<and>
   (\<forall>a b. expand_group (str_int a @ '':'' @ str_int b) = Inr (map str_int [a..b])) \<and>
   (\<forall>x. CHR '':'' \<notin> set x \<longrightarrow> expand_group x = Inr [x]) \<and>
   (\<forall>gs yss. map_result expand_group gs = Inr yss \<longrightarrow> expand_groups gs [] = Inr (concat yss))"
proof (intro conjI allI impI)
  fix p and s s' :: k2700
  assume "k2700_get_GUIparameter p s = Inr s' \<and> p_Channel_list p = ''101:105''"
  with k2700_bind_channel_list[of p s s'] channel_list_101_105
  show "k_channel_list s' = [''101'', ''102'', ''103'', ''104'', ''105'']" by simp
next
  fix p and s s' :: k2700
  assume "k2700_get_GUIparameter p s = Inr s' \<and> p_Channel_list p = ''101;103;107:109''"
  with k2700_bind_channel_list[of p s s'] channel_list_mixed
  show "k_channel_list s' = [''101'', ''103'', ''107'', ''108'', ''109'']" by simp
next
  fix s :: k2700 and sc
  show "\<exists>s'. k2700_get_GUIparameter (k2700_parameter_example ''101:105'' sc) s = Inr s' \<and>
      k_channel_list s' = [''101'', ''102'', ''103'', ''104'', ''105'']"
    by (rule k2700_bind_example_channel_list[OF channel_list_101_105])
next
  fix s :: k2700 and sc
  show "\<exists>s'. k2700_get_GUIparameter (k2700_parameter_example ''101;103;107:109'' sc) s = Inr s' \<and>
      k_channel_list s' = [''101'', ''103'', ''107'', ''108'', ''109'']"
    by (rule k2700_bind_example_channel_list[OF channel_list_mixed])
next
  fix p and s s' :: k2700 and g rest
  assume a: "k2700_get_GUIparameter p s = Inr s' \<and> p_Channel_list p = channel_string_of g rest \<and>
      (\<forall>(c, x) \<in> set rest. c = CHR '','' \<or> c = CHR '';'') \<and>
      (\<forall>x \<in> set (g # map snd rest). CHR '','' \<notin> set x \<and> CHR '';'' \<notin> set x)"
  show "\<exists>yss. map_result expand_group (g # map snd rest) = Inr yss \<and>
             k_channel_list s' = concat yss"
    by (rule k2700_bind_groups) (use a in blast)+
next
  fix p and s s' :: k2700 and a b
  assume "k2700_get_GUIparameter p s = Inr s' \<and> p_Channel_list p = str_int a @ '':'' @ str_int b"
  then show "k_channel_list s' = map str_int [a..b]"
    using k2700_bind_range by blast
next
  fix s
  show "intermediate_list s
          = split_sep '';'' (map (\<lambda>c. if c = CHR '','' then CHR '';'' else c) s)"
    by (rule intermediate_list_commas)
next
  fix a b
  show "expand_group (str_int a @ '':'' @ str_int b) = Inr (map str_int [a..b])"
    by (rule expand_group_range)
next
  fix x :: string assume "CHR '':'' \<notin> set x"
  then show "expand_group x = Inr [x]" by (rule expand_group_plain)
next
  fix gs yss assume "map_result expand_group gs = Inr yss"
  from expand_groups_acc[OF this, of "[]"] show "expand_groups gs [] = Inr (concat yss)" by simp
qed

lemma channel_list_comma_example:
  "channel_list_of ''101,103;107:109'' = Inr [''101'', ''103'', ''107'', ''108'', ''109'']"
  by (simp add: channel_eval upto.simps str_int_def str_nat_numeral digit_char_numeral)

theorem channel_range_expansion_witness:
  "\<exists>s'. k2700_get_GUIparameter (k2700_parameter_example ''101,103;107:109'' True) k2700_init = Inr s' \<and>
     ''101,103;107:109''
       = channel_string_of ''101'' [(CHR '','', ''103''), (CHR '';'', ''107:109'')] \<and>
     map_result expand_group [''101'', ''103'', ''107:109'']
       = Inr [[''101''], [''103''], [''107'', ''108'', ''109'']] \<and>
     k_channel_list s' = [''101'', ''103'', ''107'', ''108'', ''109''] \<and>
     CHR '':'' \<notin> set ''103'' \<and> expand_group ''103'' = Inr [''103'']"
proof -
  let ?p = "k2700_parameter_example ''101,103;107:109'' True"
  let ?rest = "[(CHR '','', ''103''), (CHR '';'', ''107:109'')]"
  obtain s' where b: "k2700_get_GUIparameter ?p k2700_init = Inr s'"
    using k2700_bind_example_ok[OF channel_list_comma_example] by blast
  have c: "p_Channel_list ?p = channel_string_of ''101'' ?rest"
    by (simp add: k2700_parameter_example_def channel_string_of_def)
  have h1: "\<forall>(c, x) \<in> set ?rest. c = CHR '','' \<or> c = CHR '';''" by simp
  have h2: "\<forall>x \<in> set (''101'' # map snd ?rest). CHR '','' \<notin> set x \<and> CHR '';'' \<notin> set x"
    by simp
  note g = channel_range_expansion[THEN conjunct2, THEN conjunct2, THEN conjunct2,
      THEN conjunct2, THEN conjunct1, rule_format, of ?p k2700_init s' "''101''" ?rest]
  from g b c h1 h2 obtain yss where
    m: "map_result expand_group (''101'' # map snd ?rest) = Inr yss"
    and k: "k_channel_list s' = concat yss"
    by blast
  have n: "CHR '':'' \<notin> set ''103''" by simp
  note pl = channel_range_expansion[THEN conjunct2, THEN conjunct2, THEN conjunct2,
      THEN conjunct2, THEN conjunct2, THEN conjunct2, THEN conjunct2, THEN conjunct2,
      THEN conjunct1, rule_format]
  from pl[OF n] have e: "expand_group ''103'' = Inr [''103'']" .
  have e2: "map_result expand_group [''101'', ''103'', ''107:109'']
       = Inr [[''101''], [''103''], [''107'', ''108'', ''109'']]"
    by (simp add: expand_group_def contains_single split_sep_single_Nil split_sep_single_Cons
        py_eval upto.simps str_int_def str_nat_numeral digit_char_numeral)
  with m have "yss = [[''101''], [''103''], [''107'', ''108'', ''109'']]" by simp
  with k have k': "k_channel_list s' = [''101'', ''103'', ''107'', ''108'', ''109'']" by simp
  have c': "''101,103;107:109'' = channel_string_of ''101'' ?rest"
    by (simp add: channel_string_of_def)
  from b c' e2 k' n e show ?thesis by blast
qed

subsection \<open>Multimeter: what the channel list contains\<close>

lemma expand_group_elements:
  "expand_group x = Inr ys \<Longrightarrow> y \<in> set ys \<Longrightarrow> is_int_string y \<or> (y = x \<and> \<not> contains x '':'')"
  by (auto simp: expand_group_def bind_result_def is_int_string_iff
      split: if_splits list.splits sum.splits)

lemma map_result_expand_elements:
  "map_result expand_group gs = Inr yss \<Longrightarrow> y \<in> set (concat yss) \<Longrightarrow>
     is_int_string y \<or> (y \<in> set gs \<and> \<not> contains y '':'')"
proof (induction gs arbitrary: yss)
  case Nil
  then show ?case by simp
next
  case (Cons g gs)
  from Cons.prems(1) obtain ys rest where g: "expand_group g = Inr ys"
    and r: "map_result expand_group gs = Inr rest" and yss: "yss = ys # rest"
    by (auto split: sum.splits)
  from Cons.prems(2) yss have "y \<in> set ys \<or> y \<in> set (concat rest)" by auto
  then show ?case
  proof
    assume "y \<in> set ys"
    from expand_group_elements[OF g this] show ?thesis by auto
  next
    assume "y \<in> set (concat rest)"
    from Cons.IH[OF r this] show ?thesis by auto
  qed
qed

lemma channel_list_elements:
  assumes "channel_list_of cs = Inr cl" and "y \<in> set cl"
  shows "is_int_string y \<or> (y \<in> set (intermediate_list cs) \<and> \<not> contains y '':'')"
proof -
  from assms(1) obtain yss where m: "map_result expand_group (intermediate_list cs) = Inr yss"
    and cl: "cl = concat yss"
    using expand_groups_map_result[of "intermediate_list cs" "[]" cl]
    by (auto simp: channel_list_of_def)
  from map_result_expand_elements[OF m] cl assms(2) show ?thesis by blast
qed

text \<open>
  C9, as stated, fails: the binder accepts the channel string \<open>abc\<close> and derives the channel
  list with the single element \<open>abc\<close>, which is not an integer.
\<close>

theorem channel_list_not_always_integers:
  "map_sum id k_channel_list
     (k2700_get_GUIparameter (k2700_parameter_example ''abc'' True) k2700_init) = Inr [''abc''] \<and>
   \<not> is_int_string ''abc'' \<and> py_int ''abc'' = Inl ValueError"
  by (simp add: k2700_get_GUIparameter_def k2700_parameter_example_def channel_list_abc
      Let_def lookup_def mode_units_def startswith_def is_int_string_def py_eval)

text \<open>
  C9, amended. After a binding that succeeds, the channel list is the expansion of the
  channel string of that binding alone; every element is the decimal string of an integer
  or a group of the channel string without a colon, kept verbatim; so all elements are
  integer strings when every group without a colon is one.
\<close>

theorem channel_list_elements_amended:
  "k2700_get_GUIparameter p s = Inr s' \<longrightarrow>
     channel_list_of (p_Channel_list p) = Inr (k_channel_list s') \<and>
     (\<forall>x \<in> set (k_channel_list s').
        (\<exists>n. x = str_int n) \<or>
        (x \<in> set (intermediate_list (p_Channel_list p)) \<and> \<not> contains x '':'')) \<and>
     ((\<forall>g \<in> set (intermediate_list (p_Channel_list p)). \<not> contains g '':'' \<longrightarrow> (\<exists>n. g = str_int n))
        \<longrightarrow> (\<forall>x \<in> set (k_channel_list s'). \<exists>n. x = str_int n))"
proof
  assume a: "k2700_get_GUIparameter p s = Inr s'"
  have c: "channel_list_of (p_Channel_list p) = Inr (k_channel_list s')"
    by (rule k2700_bind_channel_list[OF a])
  have e: "(\<exists>n. x = str_int n) \<or>
        (x \<in> set (intermediate_list (p_Channel_list p)) \<and> \<not> contains x '':'')"
    if "x \<in> set (k_channel_list s')" for x
    using channel_list_elements[OF c that] by (simp add: is_int_string_iff)
  from c e show "channel_list_of (p_Channel_list p) = Inr (k_channel_list s') \<and>
     (\<forall>x \<in> set (k_channel_list s').
        (\<exists>n. x = str_int n) \<or>
        (x \<in> set (intermediate_list (p_Channel_list p)) \<and> \<not> contains x '':'')) \<and>
     ((\<forall>g \<in> set (intermediate_list (p_Channel_list p)). \<not> contains g '':'' \<longrightarrow> (\<exists>n. g = str_int n))
        \<longrightarrow> (\<forall>x \<in> set (k_channel_list s'). \<exists>n. x = str_int n))"
    by blast
qed

lemma channel_list_7_101_102:
  "channel_list_of ''7;101:102'' = Inr [''7'', ''101'', ''102'']"
  by (simp add: channel_eval upto.simps str_int_def str_nat_numeral digit_char_numeral)

theorem channel_list_elements_amended_witness:
  "\<exists>s'. k2700_get_GUIparameter (k2700_parameter_example ''7;101:102'' True) k2700_init = Inr s' \<and>
        channel_list_of ''7;101:102'' = Inr (k_channel_list s') \<and>
        k_channel_list s' = [''7'', ''101'', ''102'']"
proof -
  obtain s' where s: "k2700_get_GUIparameter (k2700_parameter_example ''7;101:102'' True) k2700_init = Inr s'"
    using k2700_bind_example_ok[OF channel_list_7_101_102] by blast
  from channel_list_elements_amended[of "k2700_parameter_example ''7;101:102'' True" k2700_init s'] s
  have c: "channel_list_of ''7;101:102'' = Inr (k_channel_list s')"
    by (simp add: k2700_parameter_example_def)
  with channel_list_7_101_102 have "k_channel_list s' = [''7'', ''101'', ''102'']" by simp
  with s c show ?thesis by blast
qed

subsection \<open>Multimeter: decoding the response\<close>

lemma foldl_fadd_Fin: "foldl fadd (Fin a) (map Fin qs) = Fin (a + sum_list qs)"
  by (induction qs arbitrary: a) (simp_all add: add.assoc)

lemma np_mean_Fin: "qs \<noteq> [] \<Longrightarrow> np_mean (map Fin qs) = Fin (sum_list qs / of_nat (length qs))"
  by (simp add: np_mean_def foldl_fadd_Fin fdiv_count_def)

lemma map_result_length: "map_result f xs = Inr ys \<Longrightarrow> length ys = length xs"
  by (induction xs arbitrary: ys) (auto split: sum.splits)

lemma map_result_nth:
  "map_result f xs = Inr ys \<Longrightarrow> i < length xs \<Longrightarrow> f (xs ! i) = Inr (ys ! i)"
proof (induction xs arbitrary: ys i)
  case Nil
  then show ?case by simp
next
  case (Cons x xs)
  then show ?case by (cases i) (auto split: sum.splits)
qed

lemma k2700_call_answer:
  assumes "pending w = answer # rest" and "readings_of answer = Inr vals"
  shows "k2700_call s w =
     Inr (if k_scanning s then vals else [np_mean vals],
          w\<lparr>pending := rest, log := log w @ [Wrote fetch_command, Got answer]\<rparr>)"
  using assms
  by (simp add: k2700_call_def port_read_def port_write_def fetch_command_def)

lemma readings_1_2_3: "readings_of ''1.0,2.0,3.0'' = Inr [Fin 1, Fin 2, Fin 3]"
  by (simp add: readings_of_def strip_chars_def strip_where_def newline_def
      split_sep_single_Nil split_sep_single_Cons py_eval)

lemma np_mean_1_2_3: "np_mean [Fin 1, Fin 2, Fin 3] = Fin 2"
  using np_mean_Fin[of "[1, 2, 3]"] by simp

text \<open>
  C7. When the instrument answers with a comma-separated response whose tokens all convert,
  \<open>call\<close> returns, without scanning, the one-element list of the mean of the converted
  values and, with scanning, the converted values themselves, one per token and in order.
  The mean of finite values is their sum divided by their count; the answer
  \<open>1.0,2.0,3.0\<close> yields \<open>[2.0]\<close> without scanning and the three values with scanning.
\<close>

theorem k2700_call_mean_or_tokens:
  "(\<forall>s w answer rest vals.
      pending w = answer # rest \<and> readings_of answer = Inr vals \<longrightarrow>
        k2700_call s w =
          Inr (if k_scanning s then vals else [np_mean vals],
               w\<lparr>pending := rest, log := log w @ [Wrote fetch_command, Got answer]\<rparr>) \<and>
        length vals = length (split_sep '','' (strip_chars [newline] answer)) \<and>
        (\<forall>i < length vals.
           py_float (split_sep '','' (strip_chars [newline] answer) ! i) = Inr (vals ! i))) \<and>
   (\<forall>qs. qs \<noteq> [] \<longrightarrow> np_mean (map Fin qs) = Fin (sum_list qs / of_nat (length qs))) \<and>
   (\<forall>s stop. map_sum id fst (k2700_call s (world_init [''1.0,2.0,3.0''] stop))
        = Inr (if k_scanning s then [Fin 1, Fin 2, Fin 3] else [Fin 2]))"
proof (intro conjI allI impI)
  fix s :: k2700 and w :: world and answer rest vals
  assume a: "pending w = answer # rest \<and> readings_of answer = Inr vals"
  then show "k2700_call s w =
          Inr (if k_scanning s then vals else [np_mean vals],
               w\<lparr>pending := rest, log := log w @ [Wrote fetch_command, Got answer]\<rparr>)"
    by (simp add: k2700_call_answer)
  from a have m: "map_result py_float (split_sep '','' (strip_chars [newline] answer)) = Inr vals"
    by (simp add: readings_of_def)
  from m show l: "length vals = length (split_sep '','' (strip_chars [newline] answer))"
    by (rule map_result_length)
  fix i assume "i < length vals"
  with l have "i < length (split_sep '','' (strip_chars [newline] answer))" by simp
  with m show "py_float (split_sep '','' (strip_chars [newline] answer) ! i) = Inr (vals ! i)"
    by (rule map_result_nth)
next
  fix qs :: "rat list" assume "qs \<noteq> []"
  then show "np_mean (map Fin qs) = Fin (sum_list qs / of_nat (length qs))"
    by (rule np_mean_Fin)
next
  fix s :: k2700 and stop
  have "pending (world_init [''1.0,2.0,3.0''] stop) = ''1.0,2.0,3.0'' # []"
    by (simp add: world_init_def)
  from k2700_call_answer[OF this readings_1_2_3, of s]
  show "map_sum id fst (k2700_call s (world_init [''1.0,2.0,3.0''] stop))
        = Inr (if k_scanning s then [Fin 1, Fin 2, Fin 3] else [Fin 2])"
    by (simp add: np_mean_1_2_3)
qed

lemma readings_15_25: "readings_of ''1.5,2.5'' = Inr [Fin (3 / 2), Fin (5 / 2)]"
  by (simp add: readings_of_def strip_chars_def strip_where_def newline_def
      split_sep_single_Nil split_sep_single_Cons py_eval)

theorem k2700_call_mean_or_tokens_witness:
  "pending (world_init [''1.5,2.5''] (\<lambda>_. False)) = ''1.5,2.5'' # [] \<and>
   readings_of ''1.5,2.5'' = Inr [Fin (3 / 2), Fin (5 / 2)] \<and>
   map_sum id fst (k2700_call k2700_init (world_init [''1.5,2.5''] (\<lambda>_. False))) = Inr [Fin 2] \<and>
   [3 / 2, 5 / 2] \<noteq> ([] :: rat list) \<and>
   np_mean (map Fin [3 / 2, 5 / 2]) = Fin 2"
proof -
  have p: "pending (world_init [''1.5,2.5''] (\<lambda>_. False)) = ''1.5,2.5'' # []"
    by (simp add: world_init_def)
  have n: "[3 / 2, 5 / 2] \<noteq> ([] :: rat list)" by simp
  from k2700_call_mean_or_tokens n
  have m: "np_mean (map Fin [3 / 2, 5 / 2]) = Fin (sum_list [3 / 2, 5 / 2] / of_nat (length [3 / 2, 5 / 2 :: rat]))"
    by blast
  then have m2: "np_mean (map Fin [3 / 2, 5 / 2]) = Fin 2" by simp
  from k2700_call_mean_or_tokens p readings_15_25
  have "k2700_call k2700_init (world_init [''1.5,2.5''] (\<lambda>_. False)) =
          Inr (if k_scanning k2700_init then [Fin (3 / 2), Fin (5 / 2)]
               else [np_mean [Fin (3 / 2), Fin (5 / 2)]],
               (world_init [''1.5,2.5''] (\<lambda>_. False))\<lparr>pending := [],
                  log := log (world_init [''1.5,2.5''] (\<lambda>_. False)) @ [Wrote fetch_command, Got ''1.5,2.5'']\<rparr>)"
    by blast
  with m2 have "map_sum id fst (k2700_call k2700_init (world_init [''1.5,2.5''] (\<lambda>_. False))) = Inr [Fin 2]"
    by (simp add: k2700_init_def)
  with p readings_15_25 n m2 show ?thesis by blast
qed

subsection \<open>Oscilloscope: the sentinel\<close>


lemma handle_error_sentinel: "handle_error ''9.91E+37'' = Inr NaN"
  by (simp add: handle_error_def py_eval)

lemma handle_error_other: "ret \<noteq> ''9.91E+37'' \<Longrightarrow> handle_error ret = py_float ret"
  by (simp add: handle_error_def)

text \<open>
  C6, as stated, fails: a string that is neither the sentinel nor a float literal makes the
  decoder raise ValueError, and the literal \<open>nan\<close>, which is not the sentinel, decodes to
  not-a-number.
\<close>

theorem handle_error_claim_fails:
  "''abc'' \<noteq> ''9.91E+37'' \<and> handle_error ''abc'' = Inl ValueError \<and>
   ''nan'' \<noteq> ''9.91E+37'' \<and> handle_error ''nan'' = Inr NaN"
  by (simp add: handle_error_def py_eval)

text \<open>
  C6, amended. The decoder returns not-a-number for the sentinel \<open>9.91E+37\<close>, without
  raising, and the measurement goes on with the rest of the answers; for every other string
  it is \<open>float\<close> of that string. So it returns not-a-number exactly for the sentinel and
  for the strings \<open>float\<close> reads as not-a-number; \<open>1.234E-03\<close> yields 0.001234; the
  comparison is by characters, so \<open>9.91e+37\<close> yields the number.
\<close>

theorem handle_error_amended:
  "handle_error ''9.91E+37'' = Inr NaN \<and>
   (\<forall>ret. ret \<noteq> ''9.91E+37'' \<longrightarrow> handle_error ret = py_float ret) \<and>
   (\<forall>ret. handle_error ret = Inr NaN \<longleftrightarrow> ret = ''9.91E+37'' \<or> py_float ret = Inr NaN) \<and>
   handle_error ''1.234E-03'' = Inr (Fin (1234 / 1000000)) \<and>
   handle_error ''9.91e+37'' = Inr (Fin 99100000000000000000000000000000000000) \<and>
   (\<forall>w rest. pending w = ''9.91E+37'' # rest \<longrightarrow>
      read_result_and_handle_error w
        = Inr (NaN, w\<lparr>pending := rest, log := log w @ [Got ''9.91E+37'']\<rparr>))"
proof (intro conjI allI impI)
  show "handle_error ''9.91E+37'' = Inr NaN" by (rule handle_error_sentinel)
  show "handle_error ''1.234E-03'' = Inr (Fin (1234 / 1000000))"
    by (simp add: handle_error_def py_eval)
  show "handle_error ''9.91e+37'' = Inr (Fin 99100000000000000000000000000000000000)"
    by (simp add: handle_error_def py_eval)
next
  fix ret assume "ret \<noteq> ''9.91E+37''"
  then show "handle_error ret = py_float ret" by (rule handle_error_other)
next
  fix ret
  show "handle_error ret = Inr NaN \<longleftrightarrow> ret = ''9.91E+37'' \<or> py_float ret = Inr NaN"
  proof (cases "ret = ''9.91E+37''")
    case True
    then show ?thesis by (simp add: handle_error_sentinel)
  next
    case False
    then show ?thesis by (simp add: handle_error_other)
  qed
next
  fix w :: world and rest
  assume "pending w = ''9.91E+37'' # rest"
  then show "read_result_and_handle_error w
        = Inr (NaN, w\<lparr>pending := rest, log := log w @ [Got ''9.91E+37'']\<rparr>)"
    by (simp add: read_result_and_handle_error_def port_read_def handle_error_sentinel)
qed

theorem handle_error_amended_witness:
  "''1.5'' \<noteq> ''9.91E+37'' \<and> handle_error ''1.5'' = Inr (Fin (3 / 2)) \<and>
   pending (world_init [''9.91E+37''] (\<lambda>_. False)) = ''9.91E+37'' # [] \<and>
   map_sum id fst (read_result_and_handle_error (world_init [''9.91E+37''] (\<lambda>_. False))) = Inr NaN"
proof -
  have d: "''1.5'' \<noteq> ''9.91E+37''" by simp
  have f: "py_float ''1.5'' = Inr (Fin (3 / 2))" by (simp add: py_eval)
  from handle_error_amended[THEN conjunct2, THEN conjunct1, rule_format, OF d]
  have "handle_error ''1.5'' = py_float ''1.5''" .
  with f have h: "handle_error ''1.5'' = Inr (Fin (3 / 2))" by simp
  have p: "pending (world_init [''9.91E+37''] (\<lambda>_. False)) = ''9.91E+37'' # []"
    by (simp add: world_init_def)
  from handle_error_amended[THEN conjunct2, THEN conjunct2, THEN conjunct2, THEN conjunct2,
      THEN conjunct2, rule_format, OF p]
  have "read_result_and_handle_error (world_init [''9.91E+37''] (\<lambda>_. False))
        = Inr (NaN, (world_init [''9.91E+37''] (\<lambda>_. False))\<lparr>pending := [],
             log := log (world_init [''9.91E+37''] (\<lambda>_. False)) @ [Got ''9.91E+37'']\<rparr>)" .
  then have "map_sum id fst (read_result_and_handle_error (world_init [''9.91E+37''] (\<lambda>_. False))) = Inr NaN"
    by simp
  with d h p show ?thesis by blast
qed

subsection \<open>Oscilloscope: which places contribute\<close>

lemma update_fresh: "k \<notin> fst ` set al \<Longrightarrow> AList.update k v al = al @ [(k, v)]"
  by (induction al) auto

lemma apply_place_skip:
  "\<not> place_configured ps place \<Longrightarrow> apply_place ps place s = Inr s"
  by (auto simp: apply_place_def place_configured_def channel_of_def mode_of_def Let_def)

lemma apply_place_add:
  assumes "place_configured ps place" and "apply_place ps place s = Inr s'"
  shows "\<exists>channel_num code.
           s' = s\<lparr>r_measurement_places :=
                     AList.update place
                       (channel_num, code, get_or ps (place_key place ''statistics'') ''None'')
                       (r_measurement_places s),
                   r_variables := r_variables s @
                     [channel_of ps place @ '' '' @ hd (split_sep '' in '' (mode_of ps place))],
                   r_units := r_units s @ [last (split_sep '' in '' (mode_of ps place))],
                   r_plottype := r_plottype s @ [True],
                   r_savetype := r_savetype s @ [True]\<rparr> \<and>
           py_int [last (channel_of ps place)] = Inr channel_num \<and>
           lookup modes (mode_of ps place) = Inr code"
  using assms
  by (auto simp: apply_place_def place_configured_def channel_of_def mode_of_def Let_def
      bind_result_def last_item_def split: sum.splits if_splits)

lemma apply_places_spec:
  assumes "distinct places" and "set places \<inter> fst ` set (r_measurement_places s) = {}"
    and "apply_places ps places s = Inr s'"
  shows "map fst (r_measurement_places s')
           = map fst (r_measurement_places s) @ filter (place_configured ps) places \<and>
         length (r_variables s') = length (r_variables s) + length (filter (place_configured ps) places) \<and>
         length (r_units s') = length (r_units s) + length (filter (place_configured ps) places) \<and>
         length (r_plottype s') = length (r_plottype s) + length (filter (place_configured ps) places) \<and>
         length (r_savetype s') = length (r_savetype s) + length (filter (place_configured ps) places) \<and>
         r_use_preset s' = r_use_preset s \<and> r_waveform_count s' = r_waveform_count s"
  using assms
proof (induction places arbitrary: s)
  case Nil
  then show ?case by simp
next
  case (Cons place places)
  from Cons.prems(3) obtain s1 where s1: "apply_place ps place s = Inr s1"
    and rest: "apply_places ps places s1 = Inr s'"
    by (auto simp: bind_result_def split: sum.splits)
  from Cons.prems(1) have d: "distinct places" and np: "place \<notin> set places" by auto
  from Cons.prems(2) have fresh: "place \<notin> fst ` set (r_measurement_places s)"
    and disj: "set places \<inter> fst ` set (r_measurement_places s) = {}" by auto
  show ?case
  proof (cases "place_configured ps place")
    case False
    with s1 have "s1 = s" by (simp add: apply_place_skip)
    with Cons.IH[OF d _ rest] disj False show ?thesis by simp
  next
    case True
    from apply_place_add[OF True s1] obtain v x u where
      mp: "r_measurement_places s1 = AList.update place v (r_measurement_places s)"
      and vs: "r_variables s1 = r_variables s @ [x]"
      and us: "r_units s1 = r_units s @ [u]"
      and pt: "r_plottype s1 = r_plottype s @ [True]"
      and st: "r_savetype s1 = r_savetype s @ [True]"
      and up: "r_use_preset s1 = r_use_preset s"
      and wc: "r_waveform_count s1 = r_waveform_count s"
      by auto
    from mp fresh have mp': "r_measurement_places s1 = r_measurement_places s @ [(place, v)]"
      by (simp add: update_fresh)
    with disj np have "set places \<inter> fst ` set (r_measurement_places s1) = {}" by auto
    from Cons.IH[OF d this rest] True mp' vs us pt st up wc show ?thesis by simp
  qed
qed

lemma upto_distinct: "distinct [i..j]"
  by simp

lemma apply_gui_parameters_spec:
  assumes "apply_gui_parameters ps s = Inr s'" and "\<not> r_use_preset s"
  shows "map fst (r_measurement_places s')
           = filter (place_configured ps)
               [1..parse_parameter py_int ps ''Number of places'' maximum_measurement_places] \<and>
         length (r_variables s') = length (r_measurement_places s') \<and>
         length (r_units s') = length (r_measurement_places s') \<and>
         length (r_plottype s') = length (r_measurement_places s') \<and>
         length (r_savetype s') = length (r_measurement_places s') \<and>
         \<not> r_use_preset s'"
proof -
  let ?s0 = "s\<lparr>r_waveform_count := parse_parameter py_int ps ''Waveform count'' 1,
                r_measurement_places := [],
                r_variables := [], r_units := [], r_plottype := [], r_savetype := []\<rparr>"
  let ?n = "parse_parameter py_int ps ''Number of places'' maximum_measurement_places"
  from assms have a: "apply_places ps [1..?n] ?s0 = Inr s'"
    by (simp add: apply_gui_parameters_def Let_def)
  have "set [1..?n] \<inter> fst ` set (r_measurement_places ?s0) = {}" by simp
  from apply_places_spec[OF upto_distinct this a] assms(2)
  have m: "map fst (r_measurement_places s') = filter (place_configured ps) [1..?n]"
    and l: "length (r_variables s') = length (filter (place_configured ps) [1..?n])"
      "length (r_units s') = length (filter (place_configured ps) [1..?n])"
      "length (r_plottype s') = length (filter (place_configured ps) [1..?n])"
      "length (r_savetype s') = length (filter (place_configured ps) [1..?n])"
    and u: "\<not> r_use_preset s'"
    by simp_all
  from m have "length (r_measurement_places s') = length (filter (place_configured ps) [1..?n])"
    by (metis length_map)
  with m l u show ?thesis by simp
qed

lemma str_int_1_2: "str_int 1 = ''1''" "str_int 2 = ''2''"
  by (simp_all add: str_int_def str_nat_numeral digit_char_numeral)

lemmas place_eval = place_key_def get_or_def channel_of_def mode_of_def place_configured_def
  str_int_1_2 parse_parameter_def maximum_measurement_places_def

text \<open>
  C8, as stated, fails: place 1 has the channel \<open>CH1\<close> assigned, with the mode left at
  \<open>None\<close>, and the binding adds no measurement place and no variable.
\<close>

theorem channel_assigned_without_variable:
  "get_or channel_without_mode (place_key 1 ''channel'') ''None'' = ''CH1'' \<and>
   ''CH1'' \<noteq> ''None'' \<and>
   map_sum id r_measurement_places (apply_gui_parameters channel_without_mode rtx_init) = Inr [] \<and>
   map_sum id r_variables (apply_gui_parameters channel_without_mode rtx_init) = Inr []"
  by (simp add: channel_without_mode_def rtx_init_def apply_gui_parameters_def apply_place_def
      place_eval py_eval upto.simps Let_def)

text \<open>
  C8, amended. A place contributes if and only if both its channel and its mode differ from
  \<open>None\<close>: one step of the loop then adds the entry of the place to
  \<open>measurement_places\<close> and appends exactly one variable, unit, plottype and savetype
  entry, and otherwise changes nothing. After a binding that succeeds (without presets) the
  measurement places are exactly the places from 1 to the number of places with both
  selections, in order, and the four lists have one entry for each.
\<close>

theorem place_contributes_iff_channel_and_mode:
  "(\<forall>ps place s s'. apply_place ps place s = Inr s' \<longrightarrow>
      (if channel_of ps place \<noteq> ''None'' \<and> mode_of ps place \<noteq> ''None''
       then (\<exists>v. r_measurement_places s' = AList.update place v (r_measurement_places s)) \<and>
            (\<exists>x. r_variables s' = r_variables s @ [x]) \<and>
            (\<exists>u. r_units s' = r_units s @ [u]) \<and>
            r_plottype s' = r_plottype s @ [True] \<and>
            r_savetype s' = r_savetype s @ [True]
       else s' = s)) \<and>
   (\<forall>ps s s'. apply_gui_parameters ps s = Inr s' \<and> \<not> r_use_preset s \<longrightarrow>
      map fst (r_measurement_places s')
        = filter (\<lambda>place. channel_of ps place \<noteq> ''None'' \<and> mode_of ps place \<noteq> ''None'')
            [1..parse_parameter py_int ps ''Number of places'' maximum_measurement_places] \<and>
      length (r_variables s') = length (r_measurement_places s') \<and>
      length (r_units s') = length (r_measurement_places s') \<and>
      length (r_plottype s') = length (r_measurement_places s') \<and>
      length (r_savetype s') = length (r_measurement_places s'))"
proof (intro conjI allI impI)
  fix ps place and s s' :: rtx
  assume a: "apply_place ps place s = Inr s'"
  show "if channel_of ps place \<noteq> ''None'' \<and> mode_of ps place \<noteq> ''None''
       then (\<exists>v. r_measurement_places s' = AList.update place v (r_measurement_places s)) \<and>
            (\<exists>x. r_variables s' = r_variables s @ [x]) \<and>
            (\<exists>u. r_units s' = r_units s @ [u]) \<and>
            r_plottype s' = r_plottype s @ [True] \<and>
            r_savetype s' = r_savetype s @ [True]
       else s' = s"
  proof (cases "place_configured ps place")
    case True
    from apply_place_add[OF True a] obtain channel_num code where
      e: "s' = s\<lparr>r_measurement_places :=
                     AList.update place
                       (channel_num, code, get_or ps (place_key place ''statistics'') ''None'')
                       (r_measurement_places s),
                   r_variables := r_variables s @
                     [channel_of ps place @ '' '' @ hd (split_sep '' in '' (mode_of ps place))],
                   r_units := r_units s @ [last (split_sep '' in '' (mode_of ps place))],
                   r_plottype := r_plottype s @ [True],
                   r_savetype := r_savetype s @ [True]\<rparr>"
      by blast
    have "\<exists>v. r_measurement_places s' = AList.update place v (r_measurement_places s)"
      by (rule exI[of _ "(channel_num, code, get_or ps (place_key place ''statistics'') ''None'')"])
         (simp add: e)
    moreover have "\<exists>x. r_variables s' = r_variables s @ [x]" by (simp add: e)
    moreover have "\<exists>u. r_units s' = r_units s @ [u]" by (simp add: e)
    moreover have "r_plottype s' = r_plottype s @ [True]" by (simp add: e)
    moreover have "r_savetype s' = r_savetype s @ [True]" by (simp add: e)
    ultimately show ?thesis using True by (simp add: place_configured_def)
  next
    case False
    with a apply_place_skip[OF False, of s] show ?thesis
      by (simp add: place_configured_def)
  qed
next
  fix ps and s s' :: rtx
  assume a: "apply_gui_parameters ps s = Inr s' \<and> \<not> r_use_preset s"
  then have 1: "apply_gui_parameters ps s = Inr s'" and 2: "\<not> r_use_preset s" by simp_all
  note sp = apply_gui_parameters_spec[OF 1 2]
  from sp show "map fst (r_measurement_places s')
        = filter (\<lambda>place. channel_of ps place \<noteq> ''None'' \<and> mode_of ps place \<noteq> ''None'')
            [1..parse_parameter py_int ps ''Number of places'' maximum_measurement_places]"
    by (simp add: place_configured_def[abs_def])
  from sp show "length (r_variables s') = length (r_measurement_places s')" by simp
  from sp show "length (r_units s') = length (r_measurement_places s')" by simp
  from sp show "length (r_plottype s') = length (r_measurement_places s')" by simp
  from sp show "length (r_savetype s') = length (r_measurement_places s')" by simp
qed

lemma one_place_of_two_ok:
  "\<exists>s'. apply_gui_parameters one_place_of_two rtx_init = Inr s'"
  by (simp add: one_place_of_two_def rtx_init_def apply_gui_parameters_def apply_place_def
      place_eval py_eval upto.simps Let_def last_item_def lookup_def modes_def)

lemma one_place_of_two_filter:
  "filter (\<lambda>place. channel_of one_place_of_two place \<noteq> ''None'' \<and> mode_of one_place_of_two place \<noteq> ''None'')
     [1..parse_parameter py_int one_place_of_two ''Number of places'' maximum_measurement_places] = [1]"
  by (simp add: one_place_of_two_def place_eval py_eval upto.simps)

theorem place_contributes_iff_channel_and_mode_witness:
  "\<exists>s'. apply_gui_parameters one_place_of_two rtx_init = Inr s' \<and> \<not> r_use_preset rtx_init \<and>
        map fst (r_measurement_places s') = [1] \<and> length (r_variables s') = 1"
proof -
  obtain s' where s: "apply_gui_parameters one_place_of_two rtx_init = Inr s'"
    using one_place_of_two_ok by blast
  have u: "\<not> r_use_preset rtx_init" by (simp add: rtx_init_def)
  from place_contributes_iff_channel_and_mode[THEN conjunct2, rule_format, of one_place_of_two rtx_init s'] s u
  have m: "map fst (r_measurement_places s')
        = filter (\<lambda>place. channel_of one_place_of_two place \<noteq> ''None'' \<and> mode_of one_place_of_two place \<noteq> ''None'')
            [1..parse_parameter py_int one_place_of_two ''Number of places'' maximum_measurement_places]"
    and l: "length (r_variables s') = length (r_measurement_places s')"
    by simp_all
  from m have m1: "map fst (r_measurement_places s') = [1]" by (simp only: one_place_of_two_filter)
  then have "length (r_measurement_places s') = 1" by (metis length_map length_Cons list.size(3) One_nat_def)
  with l m1 s u show ?thesis by auto
qed

subsection \<open>Length of the result list\<close>

lemma measure_places_length:
  "measure_places items acc w = Inr (xs, w') \<Longrightarrow> length xs = length acc + length items"
proof (induction items arbitrary: acc w)
  case Nil
  then show ?case by simp
next
  case (Cons item items)
  from Cons.prems obtain result w1 where
    "measure_places items (acc @ [result]) w1 = Inr (xs, w')"
    by (auto simp: bind_result_def split: sum.splits)
  from Cons.IH[OF this] show ?case by simp
qed

lemma connect_place_cases:
  "connect_place place s w = Inr (s', w') \<Longrightarrow>
     s' = s \<or> (\<exists>v. s' = s\<lparr>r_measurement_places := AList.update place v (r_measurement_places s)\<rparr>)"
  by (auto simp: connect_place_def bind_result_def split: sum.splits if_splits prod.splits)

lemma connect_place_keys:
  assumes "connect_place place s w = Inr (s', w')"
  shows "fst ` set (r_measurement_places s') \<subseteq> insert place (fst ` set (r_measurement_places s))"
    and "distinct (map fst (r_measurement_places s)) \<Longrightarrow> distinct (map fst (r_measurement_places s'))"
    and "r_variables s' = r_variables s" and "r_use_preset s' = r_use_preset s"
proof -
  from connect_place_cases[OF assms] consider "s' = s"
    | v where "s' = s\<lparr>r_measurement_places := AList.update place v (r_measurement_places s)\<rparr>"
    by blast
  note c = this
  from c show "fst ` set (r_measurement_places s') \<subseteq> insert place (fst ` set (r_measurement_places s))"
  proof cases
    case 1
    then show ?thesis by blast
  next
    case 2
    then show ?thesis by (simp add: dom_update)
  qed
  from c show "distinct (map fst (r_measurement_places s)) \<Longrightarrow> distinct (map fst (r_measurement_places s'))"
    by cases (simp_all add: distinct_update)
  from c show "r_variables s' = r_variables s" by cases simp_all
  from c show "r_use_preset s' = r_use_preset s" by cases simp_all
qed

lemma connect_places_keys:
  assumes "connect_places places s w = Inr (s', w')"
    and "distinct (map fst (r_measurement_places s))"
  shows "fst ` set (r_measurement_places s') \<subseteq> set places \<union> fst ` set (r_measurement_places s) \<and>
         distinct (map fst (r_measurement_places s')) \<and>
         r_variables s' = r_variables s \<and> r_use_preset s' = r_use_preset s"
  using assms
proof (induction places arbitrary: s w)
  case Nil
  then show ?case by simp
next
  case (Cons place places)
  from Cons.prems(1) obtain s1 w1 where 1: "connect_place place s w = Inr (s1, w1)"
    and 2: "connect_places places s1 w1 = Inr (s', w')"
    by (auto simp: bind_result_def split: sum.splits)
  note k = connect_place_keys[OF 1]
  from k(2)[OF Cons.prems(2)] have d: "distinct (map fst (r_measurement_places s1))" .
  from Cons.IH[OF 2 d]
  have i: "fst ` set (r_measurement_places s') \<subseteq> set places \<union> fst ` set (r_measurement_places s1)"
    and r: "distinct (map fst (r_measurement_places s'))"
      "r_variables s' = r_variables s1" "r_use_preset s' = r_use_preset s1"
    by simp_all
  from i k(1) have "fst ` set (r_measurement_places s') \<subseteq> set (place # places) \<union> fst ` set (r_measurement_places s)"
    by (simp only: set_simps) blast
  with r k(3) k(4) show ?case by simp
qed

lemma distinct_keys_length:
  assumes "distinct (map fst al)" and "fst ` set al \<subseteq> {1..n::int}"
  shows "int (length al) \<le> max 0 n"
proof -
  have "length al = card (set (map fst al))"
    using assms(1) by (metis distinct_card length_map)
  also have "\<dots> \<le> card {1..n}"
    using assms(2) by (intro card_mono) auto
  finally show ?thesis by simp
qed

lemma apply_gui_parameters_consistent:
  assumes "apply_gui_parameters ps s = Inr s'"
  shows "rtx_consistent s' \<and> r_use_preset s' = r_use_preset s"
proof (cases "r_use_preset s")
  case True
  with assms show ?thesis
    by (auto simp: apply_gui_parameters_def rtx_consistent_def maximum_measurement_places_def
        Let_def)
next
  case False
  from apply_gui_parameters_spec[OF assms False] False show ?thesis
    by (simp add: rtx_consistent_def)
qed

lemma connect_consistent:
  assumes "connect s w = Inr (s', w')" and "rtx_consistent s"
  shows "rtx_consistent s'"
proof (cases "r_use_preset s")
  case False
  with assms show ?thesis by (simp add: connect_def)
next
  case True
  let ?s0 = "s\<lparr>r_measurement_places := []\<rparr>"
  from assms(1) True have c: "connect_places [1..maximum_measurement_places] ?s0 w = Inr (s', w')"
    by (simp add: connect_def)
  have "distinct (map fst (r_measurement_places ?s0))" by simp
  from connect_places_keys[OF c this]
  have k: "fst ` set (r_measurement_places s') \<subseteq> {1..maximum_measurement_places}"
    and d: "distinct (map fst (r_measurement_places s'))"
    and v: "r_variables s' = r_variables s" and u: "r_use_preset s' = r_use_preset s"
    by auto
  from distinct_keys_length[OF d k]
  have "int (length (r_measurement_places s')) \<le> maximum_measurement_places"
    by (simp add: maximum_measurement_places_def)
  with assms(2) True v u show ?thesis by (simp add: rtx_consistent_def)
qed

lemma rtx_call_length:
  assumes "rtx_call s w = Inr (xs, w')" and "rtx_consistent s"
  shows "length xs = length (r_variables s)"
proof -
  from assms(1) obtain ms w1 where m: "measure_places (r_measurement_places s) [] w = Inr (ms, w1)"
    and r: "xs = (if r_use_preset s \<and> int (length ms) < maximum_measurement_places
                  then ms @ replicate (nat (maximum_measurement_places - int (length ms))) NaN
                  else ms)"
    by (auto simp: rtx_call_def bind_result_def Let_def split: sum.splits if_splits)
  from measure_places_length[OF m] have l: "length ms = length (r_measurement_places s)" by simp
  show ?thesis
  proof (cases "r_use_preset s")
    case False
    with r l assms(2) show ?thesis by (auto simp: rtx_consistent_def)
  next
    case True
    with assms(2) have v: "int (length (r_variables s)) = maximum_measurement_places"
      and b: "int (length (r_measurement_places s)) \<le> maximum_measurement_places"
      by (simp_all add: rtx_consistent_def)
    from r l True v b show ?thesis
      by (auto split: if_splits)
  qed
qed

lemma k2700_bind_variables:
  assumes "k2700_get_GUIparameter p s = Inr s'"
  shows "k_scanning s' = p_Scanning p"
    and "k_scanning s' \<Longrightarrow> length (k_variables s') = length (k_channel_list s')"
    and "\<not> k_scanning s' \<Longrightarrow> length (k_variables s') = 1"
  using assms
  by (auto simp: k2700_get_GUIparameter_def bind_result_def Let_def split: sum.splits if_splits)

lemma k2700_call_length:
  assumes "k2700_call s w = Inr (xs, w')"
  shows "\<exists>answer rest. pending w = answer # rest \<and>
           (if k_scanning s then length xs = length (split_sep '','' (strip_chars [newline] answer))
            else length xs = 1)"
proof -
  from assms obtain answer rest where p: "pending w = answer # rest"
    by (auto simp: k2700_call_def port_read_def port_write_def bind_result_def split: list.splits)
  from assms p obtain vals where v: "readings_of answer = Inr vals"
    by (auto simp: k2700_call_def port_read_def port_write_def bind_result_def split: sum.splits)
  from k2700_call_answer[OF p v, of s] assms
  have "xs = (if k_scanning s then vals else [np_mean vals])" by simp
  moreover from v have "length vals = length (split_sep '','' (strip_chars [newline] answer))"
    by (simp add: readings_of_def map_result_length)
  ultimately show ?thesis using p by auto
qed

lemma lockin_bind_variables:
  "lockin_get_GUIparameter p s = Inr s' \<Longrightarrow> length (l_variables s') = 6"
  by (auto simp: lockin_get_GUIparameter_def bind_result_def Let_def split: sum.splits if_splits)

text \<open>
  C1. After a parameter binding that succeeds, the list that \<open>call\<close> returns has as many
  elements as the variable list that binding declared. The lock-in declares six variables
  and returns six values. The multimeter returns one value for its one variable without
  scanning and, with scanning, one value per channel of the channel list, provided the
  response of the instrument has that many comma-separated tokens. The oscilloscope returns
  one value per measurement place, which is one per declared variable; this also holds
  after \<open>connect\<close>, and in preset mode, where six variables are declared and the results are
  padded to six.
\<close>

theorem call_length_matches_variables:
  "(\<forall>p s s'. lockin_get_GUIparameter p s = Inr s' \<longrightarrow>
      length (lockin_call s') = length (l_variables s') \<and> length (l_variables s') = 6) \<and>
   (\<forall>p s s' w xs w'.
      k2700_get_GUIparameter p s = Inr s' \<and> k2700_call s' w = Inr (xs, w') \<and>
      (k_scanning s' \<longrightarrow>
         (\<forall>answer rest. pending w = answer # rest \<longrightarrow>
            length (split_sep '','' (strip_chars [newline] answer)) = length (k_channel_list s')))
      \<longrightarrow> length xs = length (k_variables s') \<and>
          (k_scanning s' \<longrightarrow> length xs = length (k_channel_list s')) \<and>
          (\<not> k_scanning s' \<longrightarrow> length xs = 1)) \<and>
   (\<forall>ps s s' w xs w'.
      apply_gui_parameters ps s = Inr s' \<and> rtx_call s' w = Inr (xs, w')
      \<longrightarrow> length xs = length (r_variables s') \<and>
          (\<not> r_use_preset s' \<longrightarrow> length xs = length (r_measurement_places s'))) \<and>
   (\<forall>ps s s' w0 s'' w1 w xs w'.
      apply_gui_parameters ps s = Inr s' \<and> connect s' w0 = Inr (s'', w1) \<and>
      rtx_call s'' w = Inr (xs, w')
      \<longrightarrow> length xs = length (r_variables s''))"
proof (intro conjI allI impI)
  fix p and s s' :: lockin
  assume "lockin_get_GUIparameter p s = Inr s'"
  then have "length (l_variables s') = 6" by (rule lockin_bind_variables)
  then show "length (lockin_call s') = length (l_variables s')" "length (l_variables s') = 6"
    by (simp_all add: lockin_call_def)
next
  fix p and s s' :: k2700 and w w' :: world and xs
  assume a: "k2700_get_GUIparameter p s = Inr s' \<and> k2700_call s' w = Inr (xs, w') \<and>
      (k_scanning s' \<longrightarrow>
         (\<forall>answer rest. pending w = answer # rest \<longrightarrow>
            length (split_sep '','' (strip_chars [newline] answer)) = length (k_channel_list s')))"
  then have b: "k2700_get_GUIparameter p s = Inr s'" and c: "k2700_call s' w = Inr (xs, w')"
    by simp_all
  from k2700_call_length[OF c] obtain answer rest where p: "pending w = answer # rest"
    and l: "if k_scanning s' then length xs = length (split_sep '','' (strip_chars [newline] answer))
            else length xs = 1"
    by blast
  note v = k2700_bind_variables[OF b]
  show d: "length xs = length (k_variables s')"
  proof (cases "k_scanning s'")
    case True
    with a p have "length (split_sep '','' (strip_chars [newline] answer)) = length (k_channel_list s')"
      by blast
    with l True v(2) show ?thesis by simp
  next
    case False
    with l v(3) show ?thesis by simp
  qed
  { assume "k_scanning s'"
    with d v(2) show "length xs = length (k_channel_list s')" by simp }
  { assume "\<not> k_scanning s'"
    with d v(3) show "length xs = 1" by simp }
next
  fix ps and s s' :: rtx and w w' :: world and xs
  assume a: "apply_gui_parameters ps s = Inr s' \<and> rtx_call s' w = Inr (xs, w')"
  then have b: "apply_gui_parameters ps s = Inr s'" and c: "rtx_call s' w = Inr (xs, w')"
    by simp_all
  from apply_gui_parameters_consistent[OF b] have k: "rtx_consistent s'" by simp
  from rtx_call_length[OF c k] show d: "length xs = length (r_variables s')" .
  { assume "\<not> r_use_preset s'"
    with k d show "length xs = length (r_measurement_places s')"
      by (simp add: rtx_consistent_def) }
next
  fix ps and s s' s'' :: rtx and w0 w1 w w' :: world and xs
  assume a: "apply_gui_parameters ps s = Inr s' \<and> connect s' w0 = Inr (s'', w1) \<and>
      rtx_call s'' w = Inr (xs, w')"
  then have b: "apply_gui_parameters ps s = Inr s'" and c: "connect s' w0 = Inr (s'', w1)"
    and d: "rtx_call s'' w = Inr (xs, w')"
    by simp_all
  from apply_gui_parameters_consistent[OF b] have "rtx_consistent s'" by simp
  from connect_consistent[OF c this] have "rtx_consistent s''" .
  from rtx_call_length[OF d this] show "length xs = length (r_variables s'')" .
qed

lemma measure_place_answer:
  assumes "pending w = r # rest" and "handle_error r = Inr v"
  shows "\<exists>w'. measure_place item w = Inr (v, w')"
  using assms
  by (cases item)
     (auto simp: measure_place_def get_measurement_minimum_def get_measurement_maximum_def
       get_averaged_measurement_def get_measurement_def read_result_and_handle_error_def
       port_read_def port_write_def)

lemma tokens_1_2_3:
  "split_sep '','' (strip_chars [newline] ''1.0,2.0,3.0'') = [''1.0'', ''2.0'', ''3.0'']"
  by (simp add: strip_chars_def strip_where_def newline_def split_sep_single_Nil
      split_sep_single_Cons)

theorem call_length_matches_variables_witness:
  "(\<exists>s'. lockin_get_GUIparameter (lockin_parameter_example ''100m'' ''4.0'') lockin_init = Inr s' \<and>
         length (lockin_call s') = 6 \<and> length (l_variables s') = 6) \<and>
   (\<exists>s' xs w'.
      k2700_get_GUIparameter (k2700_parameter_example ''7;101:102'' True) k2700_init = Inr s' \<and>
      k2700_call s' (world_init [''1.0,2.0,3.0''] (\<lambda>_. False)) = Inr (xs, w') \<and>
      k_scanning s' \<and>
      length (split_sep '','' (strip_chars [newline] ''1.0,2.0,3.0'')) = length (k_channel_list s') \<and>
      length xs = 3 \<and> length (k_variables s') = 3) \<and>
   (\<exists>s' xs w'.
      apply_gui_parameters one_place_of_two rtx_init = Inr s' \<and>
      rtx_call s' (world_init [''1000.0''] (\<lambda>_. False)) = Inr (xs, w') \<and>
      length xs = 1 \<and> length (r_variables s') = 1)"
proof (intro conjI)
  obtain s' where s: "lockin_get_GUIparameter (lockin_parameter_example ''100m'' ''4.0'') lockin_init = Inr s'"
    using lockin_bind_example_ok by blast
  from call_length_matches_variables[THEN conjunct1, rule_format, OF s] s
  show "\<exists>s'. lockin_get_GUIparameter (lockin_parameter_example ''100m'' ''4.0'') lockin_init = Inr s' \<and>
         length (lockin_call s') = 6 \<and> length (l_variables s') = 6"
    by auto
next
  let ?w = "world_init [''1.0,2.0,3.0''] (\<lambda>_. False)"
  obtain s' where s: "k2700_get_GUIparameter (k2700_parameter_example ''7;101:102'' True) k2700_init = Inr s'"
    using k2700_bind_example_ok[OF channel_list_7_101_102] by blast
  from k2700_bind_channel_list[OF s] channel_list_7_101_102
  have cl: "k_channel_list s' = [''7'', ''101'', ''102'']"
    by (simp add: k2700_parameter_example_def)
  from k2700_bind_variables(1)[OF s] have sc: "k_scanning s'"
    by (simp add: k2700_parameter_example_def)
  have p: "pending ?w = ''1.0,2.0,3.0'' # []" by (simp add: world_init_def)
  from k2700_call_answer[OF p readings_1_2_3, of s'] sc
  obtain w' where c: "k2700_call s' ?w = Inr ([Fin 1, Fin 2, Fin 3], w')" by simp
  have t: "length (split_sep '','' (strip_chars [newline] ''1.0,2.0,3.0'')) = length (k_channel_list s')"
    by (simp add: tokens_1_2_3 cl)
  have h: "k_scanning s' \<longrightarrow>
         (\<forall>answer rest. pending ?w = answer # rest \<longrightarrow>
            length (split_sep '','' (strip_chars [newline] answer)) = length (k_channel_list s'))"
    using t by (simp add: world_init_def)
  from call_length_matches_variables[THEN conjunct2, THEN conjunct1, rule_format,
      of "k2700_parameter_example ''7;101:102'' True" k2700_init s' ?w "[Fin 1, Fin 2, Fin 3]" w']
    s c h
  have "length [Fin 1, Fin 2, Fin 3] = length (k_variables s')" by blast
  then have "length (k_variables s') = 3" by simp
  with s c sc t show "\<exists>s' xs w'.
      k2700_get_GUIparameter (k2700_parameter_example ''7;101:102'' True) k2700_init = Inr s' \<and>
      k2700_call s' ?w = Inr (xs, w') \<and>
      k_scanning s' \<and>
      length (split_sep '','' (strip_chars [newline] ''1.0,2.0,3.0'')) = length (k_channel_list s') \<and>
      length xs = 3 \<and> length (k_variables s') = 3"
    by (intro exI[of _ s'] exI[of _ "[Fin 1, Fin 2, Fin 3]"] exI[of _ w']) simp
next
  let ?w = "world_init [''1000.0''] (\<lambda>_. False)"
  obtain s' where s: "apply_gui_parameters one_place_of_two rtx_init = Inr s'"
    using one_place_of_two_ok by blast
  have u: "\<not> r_use_preset rtx_init" by (simp add: rtx_init_def)
  from apply_gui_parameters_spec[OF s u] one_place_of_two_filter
  have m: "map fst (r_measurement_places s') = [1]" and np: "\<not> r_use_preset s'"
    by (simp_all add: place_configured_def[abs_def])
  from m obtain v where mp: "r_measurement_places s' = [(1, v)]"
    by (cases "r_measurement_places s'") auto
  have p: "pending ?w = ''1000.0'' # []" by (simp add: world_init_def)
  have h: "handle_error ''1000.0'' = Inr (Fin 1000)" by (simp add: handle_error_def py_eval)
  from measure_place_answer[OF p h, of "(1, v)"] obtain w' where
    "measure_place (1, v) ?w = Inr (Fin 1000, w')" by blast
  with mp np have c: "rtx_call s' ?w = Inr ([Fin 1000], w')"
    by (simp add: rtx_call_def)
  from call_length_matches_variables[THEN conjunct2, THEN conjunct2, THEN conjunct1, rule_format,
      of one_place_of_two rtx_init s' ?w "[Fin 1000]" w'] s c
  have "length [Fin 1000] = length (r_variables s')" by blast
  then have "length (r_variables s') = 1" by simp
  with s c show "\<exists>s' xs w'.
      apply_gui_parameters one_place_of_two rtx_init = Inr s' \<and>
      rtx_call s' ?w = Inr (xs, w') \<and>
      length xs = 1 \<and> length (r_variables s') = 1"
    by (intro exI[of _ s'] exI[of _ "[Fin 1000]"] exI[of _ w']) simp
qed

subsection \<open>Polling loops and the stop signal\<close>

lemma k2700_read_result_stopped:
  "stop_at w (ticks w) \<Longrightarrow>
     k2700_read_result s w = Inr (w\<lparr>log := log w @ [StopCheck True]\<rparr>)"
  by (subst k2700_read_result.simps) (simp add: is_run_stopped_def)

lemma k2700_read_result_step:
  assumes "\<not> stop_at w (ticks w)" and "pending w = r # rest"
    and "item1 (split_sep '','' r) = Inr b" and "py_int b = Inr n"
  shows "k2700_read_result s w =
     (if n \<ge> int (length (k_channel_list s)) * 16
      then Inr (w\<lparr>pending := rest, log := log w @ [StopCheck False, Wrote ''TRAC:FREE?'', Got r]\<rparr>)
      else k2700_read_result s
             (sleep (w\<lparr>pending := rest,
                        log := log w @ [StopCheck False, Wrote ''TRAC:FREE?'', Got r]\<rparr>) (1 / 10)))"
  using assms
  by (subst k2700_read_result.simps) (simp add: is_run_stopped_def port_read_def port_write_def)

text \<open>
  The multimeter loop does what the contract asks: whatever the instrument answers, every
  sleep of \<open>read_result\<close> comes after a check of the stop signal made since the previous
  sleep, and a stop request seen by that check ends the loop without a further sleep.
\<close>

lemma k2700_read_result_guarded:
  "k2700_read_result s w = Inr w' \<Longrightarrow>
     \<exists>evs. log w' = log w @ evs \<and> stop_checked_before_sleep False evs"
proof (induction s w rule: k2700_read_result.induct)
  case (1 s w)
  show ?case
  proof (cases "stop_at w (ticks w)")
    case True
    with "1.prems" have "w' = w\<lparr>log := log w @ [StopCheck True]\<rparr>"
      by (simp add: k2700_read_result_stopped)
    then show ?thesis by simp
  next
    case False
    from "1.prems" False obtain r rest where p: "pending w = r # rest"
      by (subst (asm) k2700_read_result.simps)
         (auto simp: is_run_stopped_def port_read_def port_write_def split: list.splits)
    from "1.prems" False p obtain b where b: "item1 (split_sep '','' r) = Inr b"
      by (subst (asm) k2700_read_result.simps)
         (auto simp: is_run_stopped_def port_read_def port_write_def bind_result_def
           split: sum.splits)
    from "1.prems" False p b obtain n where n: "py_int b = Inr n"
      by (subst (asm) k2700_read_result.simps)
         (auto simp: is_run_stopped_def port_read_def port_write_def bind_result_def
           split: sum.splits)
    let ?w3 = "w\<lparr>pending := rest, log := log w @ [StopCheck False, Wrote ''TRAC:FREE?'', Got r]\<rparr>"
    note step = k2700_read_result_step[OF False p b n, of s]
    show ?thesis
    proof (cases "n \<ge> int (length (k_channel_list s)) * 16")
      case True
      with step "1.prems" have "w' = ?w3" by simp
      then show ?thesis by simp
    next
      case ge: False
      with step "1.prems" have r: "k2700_read_result s (sleep ?w3 (1 / 10)) = Inr w'" by simp
      have pr: "port_read (port_write (snd (is_run_stopped w)) ''TRAC:FREE?'')
                 = Inr (r, snd (is_run_stopped w)\<lparr>pending := rest,
                      log := log (snd (is_run_stopped w)) @ [Wrote ''TRAC:FREE?'', Got r]\<rparr>)"
        using p by (simp add: port_read_def port_write_def is_run_stopped_def)
      have eq: "snd (is_run_stopped w)\<lparr>pending := rest,
                  log := log (snd (is_run_stopped w)) @ [Wrote ''TRAC:FREE?'', Got r]\<rparr> = ?w3"
        using False by (simp add: is_run_stopped_def)
      have "\<exists>evs. log w' = log (sleep ?w3 (1 / 10)) @ evs \<and> stop_checked_before_sleep False evs"
      proof (rule "1.IH"[OF _ _ _ _ _ _ r])
        show "\<not> fst (is_run_stopped w)" using False by (simp add: is_run_stopped_def)
        show "port_read (port_write (snd (is_run_stopped w)) ''TRAC:FREE?'') = Inr (r, ?w3)"
          using pr eq by simp
        show "(r, ?w3) = (r, ?w3)" by simp
        show "item1 (split_sep '','' r) = Inr b" by (rule b)
        show "py_int b = Inr n" by (rule n)
        show "\<not> int (length (k_channel_list s)) * 16 \<le> n" by (rule ge)
      qed
      then obtain evs where "log w' = log (sleep ?w3 (1 / 10)) @ evs"
        and "stop_checked_before_sleep False evs" by blast
      then have "log w' = log w @ ([StopCheck False, Wrote ''TRAC:FREE?'', Got r, Slept (1 / 10)] @ evs)
          \<and> stop_checked_before_sleep False ([StopCheck False, Wrote ''TRAC:FREE?'', Got r, Slept (1 / 10)] @ evs)"
        by (simp add: sleep_def)
      then show ?thesis by blast
    qed
  qed
qed

lemma wait_for_waveforms_step:
  assumes "pending w = r # rest" and "py_int r = Inr n"
  shows "wait_for_waveforms waveform_count place w =
     (if n < waveform_count
      then wait_for_waveforms waveform_count place
             (sleep (w\<lparr>pending := rest,
                        log := log w @ [Wrote (meas place '':RES:WFMCount?''), Got r]\<rparr>) (1 / 10))
      else Inr (w\<lparr>pending := rest,
                  log := log w @ [Wrote (meas place '':RES:WFMCount?''), Got r]\<rparr>))"
  using assms
  by (subst wait_for_waveforms.simps)
     (simp add: get_waveform_count_def port_read_def port_write_def)

lemma wait_for_waveforms_timeout:
  "pending w = [] \<Longrightarrow> wait_for_waveforms waveform_count place w = Inl Timeout"
  by (subst wait_for_waveforms.simps)
     (simp add: get_waveform_count_def port_read_def port_write_def)

lemma apply_gui_parameters_waveform_count:
  assumes "apply_gui_parameters ps s = Inr s'" and "\<not> r_use_preset s"
  shows "r_waveform_count s' = parse_parameter py_int ps ''Waveform count'' 1"
proof -
  let ?s0 = "s\<lparr>r_waveform_count := parse_parameter py_int ps ''Waveform count'' 1,
                r_measurement_places := [],
                r_variables := [], r_units := [], r_plottype := [], r_savetype := []\<rparr>"
  let ?n = "parse_parameter py_int ps ''Number of places'' maximum_measurement_places"
  from assms have a: "apply_places ps [1..?n] ?s0 = Inr s'"
    by (simp add: apply_gui_parameters_def Let_def)
  have "set [1..?n] \<inter> fst ` set (r_measurement_places ?s0) = {}" by simp
  from apply_places_spec[OF upto_distinct this a] show ?thesis by simp
qed

lemma one_place_of_two_state:
  assumes "apply_gui_parameters one_place_of_two rtx_init = Inr s'"
  shows "r_waveform_count s' = 2" and "map fst (r_measurement_places s') = [1]"
proof -
  have u: "\<not> r_use_preset rtx_init" by (simp add: rtx_init_def)
  from apply_gui_parameters_waveform_count[OF assms u] show "r_waveform_count s' = 2"
    by (simp add: one_place_of_two_def place_eval py_eval)
  from apply_gui_parameters_spec[OF assms u] one_place_of_two_filter
  show "map fst (r_measurement_places s') = [1]"
    by (simp add: place_configured_def[abs_def])
qed

lemma meas_1: "meas 1 cmd = ''MEAS1'' @ cmd"
  by (simp add: meas_def str_int_1_2)

lemma request_result_stop_ignored:
  assumes "r_waveform_count s = 2" and "map fst (r_measurement_places s) = [1]"
  shows "map_sum id log (request_result s (world_init [''1'', ''1'', ''2''] (\<lambda>_. True)))
         = Inr [Wrote ''MEAS1:RES:WFMCount?'', Got ''1'', Slept (1 / 10),
                Wrote ''MEAS1:RES:WFMCount?'', Got ''1'', Slept (1 / 10),
                Wrote ''MEAS1:RES:WFMCount?'', Got ''2'']"
    and "request_result s (world_init [''1'', ''1''] (\<lambda>_. True)) = Inl Timeout"
proof -
  have i1: "py_int ''1'' = Inr 1" and i2: "py_int ''2'' = Inr 2" by (simp_all add: py_eval)
  show "map_sum id log (request_result s (world_init [''1'', ''1'', ''2''] (\<lambda>_. True)))
         = Inr [Wrote ''MEAS1:RES:WFMCount?'', Got ''1'', Slept (1 / 10),
                Wrote ''MEAS1:RES:WFMCount?'', Got ''1'', Slept (1 / 10),
                Wrote ''MEAS1:RES:WFMCount?'', Got ''2'']"
    using assms
    by (simp add: request_result_def world_init_def sleep_def meas_1 i1 i2
        wait_for_waveforms_step[where r="''1''" and n=1]
        wait_for_waveforms_step[where r="''2''" and n=2])
  show "request_result s (world_init [''1'', ''1''] (\<lambda>_. True)) = Inl Timeout"
    using assms
    by (simp add: request_result_def world_init_def sleep_def meas_1 i1
        wait_for_waveforms_step[where r="''1''" and n=1] wait_for_waveforms_timeout)
qed

text \<open>
  C3. The oscilloscope loop does not check the stop signal. With the waveform count 2, one
  configured place, an instrument that reports 1, 1, 2 acquired waveforms and a stop
  request pending from the start, \<open>request_result\<close> sleeps twice and never reads the stop
  signal; when the instrument never reports the target count the wait ends only with the
  timeout of the port. The multimeter loop, on a stop request pending from the start,
  returns at its first check.
\<close>

theorem request_result_sleeps_without_stop_check:
  "\<exists>s'. apply_gui_parameters one_place_of_two rtx_init = Inr s' \<and>
     map_sum id log (request_result s' (world_init [''1'', ''1'', ''2''] (\<lambda>_. True)))
       = Inr [Wrote ''MEAS1:RES:WFMCount?'', Got ''1'', Slept (1 / 10),
              Wrote ''MEAS1:RES:WFMCount?'', Got ''1'', Slept (1 / 10),
              Wrote ''MEAS1:RES:WFMCount?'', Got ''2''] \<and>
     \<not> stop_checked_before_sleep False
         [Wrote ''MEAS1:RES:WFMCount?'', Got ''1'', Slept (1 / 10),
          Wrote ''MEAS1:RES:WFMCount?'', Got ''1'', Slept (1 / 10),
          Wrote ''MEAS1:RES:WFMCount?'', Got ''2''] \<and>
     request_result s' (world_init [''1'', ''1''] (\<lambda>_. True)) = Inl Timeout \<and>
     map_sum id log (k2700_read_result k2700_init (world_init [''100,0'', ''100,0''] (\<lambda>_. True)))
       = Inr [StopCheck True]"
proof -
  obtain s' where s: "apply_gui_parameters one_place_of_two rtx_init = Inr s'"
    using one_place_of_two_ok by blast
  note st = one_place_of_two_state[OF s]
  note rr = request_result_stop_ignored[OF st]
  have k: "map_sum id log (k2700_read_result k2700_init (world_init [''100,0'', ''100,0''] (\<lambda>_. True)))
       = Inr [StopCheck True]"
    by (simp add: k2700_read_result_stopped world_init_def)
  have n: "\<not> stop_checked_before_sleep False
         [Wrote ''MEAS1:RES:WFMCount?'', Got ''1'', Slept (1 / 10),
          Wrote ''MEAS1:RES:WFMCount?'', Got ''1'', Slept (1 / 10),
          Wrote ''MEAS1:RES:WFMCount?'', Got ''2'']"
    by simp
  from s rr k n show ?thesis by blast
qed

end
